theory Spec2Isabelle
  imports Complex_Main "HOL-Library.Word" "HOL-Library.Code_Target_Nat"
begin

section \<open>Authenticity analysis pipeline: metadata analyzer, forensics analyzer, scoring engine\<close>

text \<open>
  The TypeScript sources are embedded shallowly. A JavaScript \<open>number\<close> is a
  \<^typ>\<open>real\<close>. Where the result of a computation depends on the rounding of double
  arithmetic, in the GPS conversion, every operation is followed by \<open>fl\<close>, the rounding to
  the nearest double; elsewhere the arithmetic is exact. The places where the source can
  produce a non-finite number (a division by zero) are written out as separate values.
  Strings are lists of 8-bit code units, which is what the EXIF reader and the latin1
  decoding of PNG text chunks produce.
\<close>

subsection \<open>Numbers\<close>

definition js_round :: "real \<Rightarrow> real" where
  \<comment> \<open>\<open>Math.round\<close>: the nearest integer, a tie going up.\<close>
  "js_round x = of_int \<lfloor>x + 1 / 2\<rfloor>"

definition round_even :: "real \<Rightarrow> int" where
  \<comment> \<open>the nearest integer, a tie going to the even one\<close>
  "round_even w =
     (let f = \<lfloor>w\<rfloor>
      in if w - of_int f < 1 / 2 then f
         else if w - of_int f > 1 / 2 then f + 1
         else if even f then f else f + 1)"

definition binade :: "real \<Rightarrow> int" where
  \<comment> \<open>the binary exponent \<open>e\<close> of a non-zero number: \<open>2^e \<le> |z| < 2^(e+1)\<close>\<close>
  "binade z = \<lfloor>log 2 \<bar>z\<bar>\<rfloor>"

definition fl :: "real \<Rightarrow> real" where
  \<comment> \<open>The double nearest to \<open>z\<close> (IEEE 754 binary64, round to nearest, ties to even): a
      53-bit significand scaled by a power of two. The exponent is not limited, so \<open>fl\<close> is
      the rounding of the machine wherever no overflow or subnormal number occurs, which is
      the case for quotients, sums and products of the 32-bit integers of an EXIF rational.\<close>
  "fl z =
     (if z = 0 then 0
      else of_int (round_even (z / 2 powi (binade z - 52))) * 2 powi (binade z - 52))"

subsection \<open>Forensics analyzer: error level analysis\<close>

record ELAAnalysis =
  variance :: real
  meanDifference :: real
  maxDifference :: real
  hotspotCount :: real
  hotspotPercentage :: real
  hasManipulation :: bool
  ela_severity :: real

definition elaSeverity :: "real \<Rightarrow> real" where
  \<comment> \<open>forensics-analyzer.ts, lines 283-287\<close>
  "elaSeverity v =
     (if v > 25 then 75
      else if v > 18 then 60
      else if v > 12 then 45
      else if v < 2 then 70
      else 0)"

definition elaResult :: "real \<Rightarrow> real \<Rightarrow> real \<Rightarrow> real \<Rightarrow> real \<Rightarrow> ELAAnalysis" where
  \<comment> \<open>forensics-analyzer.ts, lines 276-297: the decision taken on the statistics of the
      difference map (standard deviation, mean, maximum, hotspot count and percentage).\<close>
  "elaResult v meanDiff maxDiff hotspots hotspotPct =
     \<lparr> variance = v,
       meanDifference = meanDiff,
       maxDifference = maxDiff,
       hotspotCount = hotspots,
       hotspotPercentage = hotspotPct,
       hasManipulation = ((v > 15 \<and> hotspotPct > 5) \<or> (v < 3 \<and> hotspotPct < 0.5)),
       ela_severity = elaSeverity v \<rparr>"

subsection \<open>Result types (types/index.ts)\<close>

datatype finding_type = Critical | Warning | Info

datatype finding_category = CatMetadata | CatStatistics | CatForensics | CatAiSignature

text \<open>
  A Finding carries, besides the four fields below, a free-text \<open>details\<close> string and a
  dynamically typed \<open>evidence\<close> payload. Neither is read by any analyzer or by the scoring
  engine, and both are left out of the model.
\<close>

record Finding =
  ftype :: finding_type
  severity :: real
  category :: finding_category
  message :: string

record AISignature =
  tool :: "string option"
  toolType :: "string option"
  sig_confidence :: real
  sig_evidence :: string

record CameraInfo =
  cam_make :: "string option"
  cam_model :: "string option"
  software :: "string option"
  lensModel :: "string option"
  orientation :: "nat option"
  xResolution :: "(int \<times> int) option"
  yResolution :: "(int \<times> int) option"

record FrequencyAnalysis =
  hasAnomalies :: bool
  anomalyType :: string
  spectralEnergy :: real
  gridArtifacts :: bool
  periodicPatterns :: bool
  freq_severity :: real

record TextureAnalysis =
  naturalness :: real
  repetitionScore :: real
  microPatternScore :: real
  textureRichness :: real
  isArtificial :: bool
  tex_severity :: real

record CompressionAnalysis =
  hasInconsistency :: bool
  inconsistencyType :: "string option"
  comp_hasStandardQuantization :: bool
  estimatedQuality :: "real option"
  blockArtifacts :: bool
  ghostingDetected :: bool
  qualityMismatch :: bool
  comp_severity :: real

record AIArtifactAnalysis =
  hasArtifacts :: bool
  artifactTypes :: "string list"
  ganFingerprint :: real
  diffusionMarkers :: real
  description :: string
  art_severity :: real

record ForensicAnalysis =
  isScreenshot :: bool
  screenshotProbability :: real
  exportToolDetected :: "string option"
  hasStandardQuantization :: bool
  quantizationQuality :: "real option"
  thumbnailConsistent :: bool
  fileFormatValid :: bool

datatype analysis_status = Passed | WarningStatus | Failed

record ForensicsAnalysisResult =
  fr_status :: analysis_status
  fr_findings :: "Finding list"
  forensics :: "ForensicAnalysis option"
  elaAnalysis :: "ELAAnalysis option"
  frequencyAnalysis :: "FrequencyAnalysis option"
  textureAnalysis :: "TextureAnalysis option"
  compressionAnalysis :: "CompressionAnalysis option"
  aiArtifactAnalysis :: "AIArtifactAnalysis option"

datatype coordinate = Decimal real | NotFinite
  \<comment> \<open>a number computed by a division: finite, or \<open>Infinity\<close>/\<open>NaN\<close> after a division by zero\<close>

record GPSInfo =
  latitude :: "coordinate option"
  longitude :: "coordinate option"
  altitude :: "coordinate option"
  latitudeRef :: "string option"
  longitudeRef :: "string option"

datatype js_date = DateOf "int option" "int option" "int option" "int option" "int option" "int option"
  \<comment> \<open>the object built by \<open>new Date(year, monthIndex, day, hours, minutes, seconds)\<close>;
      a component is \<open>None\<close> when the argument is \<open>NaN\<close>, which makes an Invalid Date\<close>

record TimestampAnalysis =
  exifDateTimeOriginal :: "js_date option"
  exifDateTimeDigitized :: "js_date option"
  exifDateTime :: "js_date option"
  gpsTimestamp :: "js_date option"
  inconsistencies :: "Finding list"

record MetadataAnalysisResult =
  md_status :: analysis_status
  md_findings :: "Finding list"
  cameraInfo :: "CameraInfo option"
  timestamps :: "TimestampAnalysis option"
  aiSignatures :: "AISignature list option"
  gpsInfo :: "GPSInfo option"
  hasEXIF :: bool
  hasGPS :: bool

datatype verdict = VERIFIED | RISKY | REJECTED

datatype indicator =
    AITool "string option"
  | ELAVariance real
  | SpectralAnomaly string
  | TextureNaturalness real
  | Artifact string
  | CompressionIssue "string option"
  \<comment> \<open>the entries of \<open>primaryIndicators\<close>: each constructor stands for one of the template
      strings of detectAIGeneration and carries the interpolated value\<close>

record AIDetection =
  isLikelyAI :: bool
  ai_confidence :: real
  detectionMethods :: "string list"
  primaryIndicators :: "indicator list"

record Summary =
  totalFindings :: nat
  criticalCount :: nat
  warningCount :: nat
  infoCount :: nat

record DetailedVerificationResult =
  status :: verdict
  confidence :: real
  riskScore :: real
  processingTime :: real
  analysis_metadata :: MetadataAnalysisResult
  analysis_forensics :: ForensicsAnalysisResult
  summary :: Summary
  aiDetection :: AIDetection

subsection \<open>Scoring engine (scoring-engine.ts)\<close>

definition truthy :: "string option \<Rightarrow> bool" where
  \<comment> \<open>JavaScript truthiness of an optional string: present and not empty\<close>
  "truthy s = (case s of None \<Rightarrow> False | Some v \<Rightarrow> v \<noteq> [])"

definition calculateConfidence :: "real \<Rightarrow> real list \<Rightarrow> real list \<Rightarrow> real" where
  "calculateConfidence baseScore positiveFactors negativeFactors =
     (let score = fold (\<lambda>factor score. score + factor) positiveFactors baseScore;
          score = fold (\<lambda>factor score. score - factor) negativeFactors score
      in max 0 (min 100 score))"

definition hasSignatures :: "MetadataAnalysisResult \<Rightarrow> bool" where
  \<comment> \<open>\<open>metadata.aiSignatures && metadata.aiSignatures.length > 0\<close>\<close>
  "hasSignatures metadata = (case aiSignatures metadata of None \<Rightarrow> False | Some sigs \<Rightarrow> length sigs > 0)"

definition metadataFindingScore :: "Finding \<Rightarrow> real \<Rightarrow> real" where
  \<comment> \<open>body of the loop over \<open>metadata.findings\<close>\<close>
  "metadataFindingScore finding score =
     (if ftype finding = Critical \<and> category finding = CatAiSignature then score + severity finding * 0.95
      else if ftype finding = Warning then score + severity finding * 0.4
      else score)"

definition forensicsFindingScore :: "Finding \<Rightarrow> real \<Rightarrow> real" where
  \<comment> \<open>body of the loop over \<open>forensics.findings\<close>\<close>
  "forensicsFindingScore finding score =
     (if ftype finding = Critical then score + severity finding * 1.0
      else if ftype finding = Warning then score + severity finding * 0.5
      else score)"

definition addWhen :: "'a option \<Rightarrow> ('a \<Rightarrow> bool) \<Rightarrow> ('a \<Rightarrow> real) \<Rightarrow> real \<Rightarrow> real" where
  \<comment> \<open>\<open>if (x?.flag) { score += amount(x) }\<close> for an optional sub-result \<open>x\<close>\<close>
  "addWhen x flag amount score =
     (case x of Some v \<Rightarrow> if flag v then score + amount v else score | None \<Rightarrow> score)"

definition addIf :: "bool \<Rightarrow> real \<Rightarrow> real \<Rightarrow> real" where
  \<comment> \<open>\<open>if (cond) { score += amount }\<close>\<close>
  "addIf cond amount score = (if cond then score + amount else score)"

definition subIf :: "bool \<Rightarrow> real \<Rightarrow> real \<Rightarrow> real" where
  \<comment> \<open>\<open>if (cond) { score -= amount }\<close>\<close>
  "subIf cond amount score = (if cond then score - amount else score)"

definition optFlag :: "'a option \<Rightarrow> ('a \<Rightarrow> bool) \<Rightarrow> bool" where
  \<comment> \<open>\<open>x && flag(x)\<close> and \<open>x?.flag\<close>\<close>
  "optFlag x flag = (case x of Some v \<Rightarrow> flag v | None \<Rightarrow> False)"

definition calculateRiskScore :: "MetadataAnalysisResult \<Rightarrow> ForensicsAnalysisResult \<Rightarrow> real" where
  "calculateRiskScore metadata forensics_r =
     (let score = 0;
          score = addWhen (elaAnalysis forensics_r) hasManipulation (\<lambda>e. ela_severity e * 1.0) score;
          score = addWhen (frequencyAnalysis forensics_r) hasAnomalies (\<lambda>q. freq_severity q * 1.0) score;
          score = addWhen (textureAnalysis forensics_r) isArtificial (\<lambda>t. tex_severity t * 1.0) score;
          score = addWhen (compressionAnalysis forensics_r) hasInconsistency
                    (\<lambda>c. comp_severity c * 1.0 * 0.8) score;
          score = addWhen (aiArtifactAnalysis forensics_r) hasArtifacts
                    (\<lambda>a. art_severity a * 1.0 * 1.3) score;
          score = addIf (hasSignatures metadata) (85 * 0.95) score;
          score = fold metadataFindingScore (md_findings metadata) score;
          score = fold forensicsFindingScore (fr_findings forensics_r) score;
          score = addIf (optFlag (forensics forensics_r) isScreenshot) 40 score;
          score = addIf (optFlag (forensics forensics_r) (\<lambda>g. truthy (exportToolDetected g))) 35 score;
          score = subIf (hasEXIF metadata) 15 score;
          score = subIf (hasGPS metadata) 15 score;
          score = subIf (optFlag (cameraInfo metadata) (\<lambda>c. truthy (cam_make c) \<and> truthy (cam_model c))) 20 score;
          score = subIf (optFlag (textureAnalysis forensics_r) (\<lambda>t. naturalness t > 70)) 15 score;
          score = subIf (optFlag (elaAnalysis forensics_r) (\<lambda>e. \<not> hasManipulation e \<and> variance e < 10)) 10 score
      in max 0 (min 100 score))"

text \<open>
  detectAIGeneration keeps four accumulators: \<open>totalScore\<close>, \<open>methodCount\<close>,
  \<open>detectionMethods\<close> and \<open>primaryIndicators\<close>. Each of its six numbered blocks is a
  step on that state.
\<close>

record ai_acc =
  totalScore :: real
  methodCount :: nat
  acc_methods :: "string list"
  acc_indicators :: "indicator list"

definition addSignature :: "AISignature \<Rightarrow> ai_acc \<Rightarrow> ai_acc" where
  \<comment> \<open>body of the loop over \<open>metadata.aiSignatures\<close>\<close>
  "addSignature sig acc =
     acc\<lparr> acc_indicators := acc_indicators acc @ [AITool (tool sig)],
          totalScore := totalScore acc + sig_confidence sig,
          methodCount := methodCount acc + 1 \<rparr>"

definition replaceUnderscores :: "string \<Rightarrow> string" where
  \<comment> \<open>\<open>artifact.replace(/_/g, ' ')\<close>\<close>
  "replaceUnderscores s = map (\<lambda>c. if c = CHR ''_'' then CHR '' '' else c) s"

definition countMethod :: "string \<Rightarrow> indicator list \<Rightarrow> real \<Rightarrow> ai_acc \<Rightarrow> ai_acc" where
  \<comment> \<open>the four statements shared by blocks 2 to 6: push the method name, push the
      indicators, add to \<open>totalScore\<close>, increment \<open>methodCount\<close>\<close>
  "countMethod name indicators amount acc =
     acc\<lparr> acc_methods := acc_methods acc @ [name],
          acc_indicators := acc_indicators acc @ indicators,
          totalScore := totalScore acc + amount,
          methodCount := methodCount acc + 1 \<rparr>"

definition stepSignatures :: "MetadataAnalysisResult \<Rightarrow> ai_acc \<Rightarrow> ai_acc" where
  \<comment> \<open>1. Metadata AI signatures\<close>
  "stepSignatures metadata acc =
     (case aiSignatures metadata of
        None \<Rightarrow> acc
      | Some sigs \<Rightarrow>
          if length sigs > 0
          then fold addSignature sigs (acc\<lparr> acc_methods := acc_methods acc @ [''metadata_signatures''] \<rparr>)
          else acc)"

definition stepELA :: "ForensicsAnalysisResult \<Rightarrow> ai_acc \<Rightarrow> ai_acc" where
  \<comment> \<open>2. ELA analysis\<close>
  "stepELA forensics_r acc =
     (case elaAnalysis forensics_r of
        Some e \<Rightarrow>
          if hasManipulation e \<and> ela_severity e \<ge> 50
          then countMethod ''error_level_analysis'' [ELAVariance (variance e)] (ela_severity e) acc
          else acc
      | None \<Rightarrow> acc)"

definition stepFrequency :: "ForensicsAnalysisResult \<Rightarrow> ai_acc \<Rightarrow> ai_acc" where
  \<comment> \<open>3. Frequency analysis\<close>
  "stepFrequency forensics_r acc =
     (case frequencyAnalysis forensics_r of
        Some q \<Rightarrow>
          if hasAnomalies q
          then countMethod ''frequency_analysis'' [SpectralAnomaly (anomalyType q)] (freq_severity q) acc
          else acc
      | None \<Rightarrow> acc)"

definition stepTexture :: "ForensicsAnalysisResult \<Rightarrow> ai_acc \<Rightarrow> ai_acc" where
  \<comment> \<open>4. Texture analysis\<close>
  "stepTexture forensics_r acc =
     (case textureAnalysis forensics_r of
        Some t \<Rightarrow>
          if isArtificial t
          then countMethod ''texture_analysis'' [TextureNaturalness (naturalness t)] (tex_severity t) acc
          else acc
      | None \<Rightarrow> acc)"

definition stepArtifacts :: "ForensicsAnalysisResult \<Rightarrow> ai_acc \<Rightarrow> ai_acc" where
  \<comment> \<open>5. AI artifact detection\<close>
  "stepArtifacts forensics_r acc =
     (case aiArtifactAnalysis forensics_r of
        Some a \<Rightarrow>
          if hasArtifacts a
          then countMethod ''artifact_detection''
                 (map (\<lambda>artifact. Artifact (replaceUnderscores artifact)) (take 3 (artifactTypes a)))
                 (art_severity a * 1.2) acc
          else acc
      | None \<Rightarrow> acc)"

definition stepCompression :: "ForensicsAnalysisResult \<Rightarrow> ai_acc \<Rightarrow> ai_acc" where
  \<comment> \<open>6. JPEG compression anomalies\<close>
  "stepCompression forensics_r acc =
     (case compressionAnalysis forensics_r of
        Some c \<Rightarrow>
          if hasInconsistency c
          then countMethod ''compression_analysis'' [CompressionIssue (inconsistencyType c)] (comp_severity c) acc
          else acc
      | None \<Rightarrow> acc)"

definition aiAccumulate :: "MetadataAnalysisResult \<Rightarrow> ForensicsAnalysisResult \<Rightarrow> ai_acc" where
  \<comment> \<open>scoring-engine.ts, detectAIGeneration up to the comment "Calculate weighted confidence"\<close>
  "aiAccumulate metadata forensics_r =
     (let acc = \<lparr> totalScore = 0, methodCount = 0, acc_methods = [], acc_indicators = [] \<rparr>;
          acc = stepSignatures metadata acc;
          acc = stepELA forensics_r acc;
          acc = stepFrequency forensics_r acc;
          acc = stepTexture forensics_r acc;
          acc = stepArtifacts forensics_r acc;
          acc = stepCompression forensics_r acc
      in acc)"

definition weightedConfidence :: "ai_acc \<Rightarrow> real" where
  \<comment> \<open>\<open>const confidence = methodCount > 0 ? totalScore / methodCount : 0\<close>\<close>
  "weightedConfidence acc = (if methodCount acc > 0 then totalScore acc / real (methodCount acc) else 0)"

definition multiplier :: "ai_acc \<Rightarrow> real" where
  "multiplier acc = 1 + real (min (methodCount acc) 5) * 0.08"

definition adjustedConfidence :: "ai_acc \<Rightarrow> real" where
  "adjustedConfidence acc = min 100 (weightedConfidence acc * multiplier acc)"

definition detectAIGeneration :: "MetadataAnalysisResult \<Rightarrow> ForensicsAnalysisResult \<Rightarrow> AIDetection" where
  "detectAIGeneration metadata forensics_r =
     (let acc = aiAccumulate metadata forensics_r
      in \<lparr> isLikelyAI =
             ((methodCount acc \<ge> 2 \<and> adjustedConfidence acc \<ge> 55)
              \<or> (methodCount acc \<ge> 3 \<and> adjustedConfidence acc \<ge> 45)
              \<or> (hasSignatures metadata \<and> adjustedConfidence acc \<ge> 70)
              \<or> False),
           ai_confidence = js_round (adjustedConfidence acc),
           detectionMethods = acc_methods acc,
           primaryIndicators = take 5 (acc_indicators acc) \<rparr>)"

definition finalStatus ::
  "MetadataAnalysisResult \<Rightarrow> Finding list \<Rightarrow> real \<Rightarrow> AIDetection \<Rightarrow> verdict \<times> real" where
  \<comment> \<open>scoring-engine.ts, "Determine final status": the pair of \<open>status\<close> and \<open>confidence\<close>
      assigned by the if-chain\<close>
  "finalStatus metadata criticalFindings risk detection =
     (if isLikelyAI detection \<and> ai_confidence detection \<ge> 75
        then (REJECTED, ai_confidence detection)
      else if length criticalFindings > 0 \<and> list_ex (\<lambda>f. category f = CatAiSignature) criticalFindings
        then (REJECTED, calculateConfidence 90 [10] [])
      else if risk \<ge> 70
        then (RISKY, calculateConfidence risk [15] [-10])
      else if risk \<ge> 45 \<or> (isLikelyAI detection \<and> ai_confidence detection \<ge> 50)
        then (RISKY, calculateConfidence risk [10] [-5])
      else (VERIFIED,
            calculateConfidence 30
              ((if hasGPS metadata then [15] else [])
               @ (if hasEXIF metadata then [10] else [])
               @ (if optFlag (cameraInfo metadata) (\<lambda>c. truthy (cam_make c)) then [10] else []))
              []))"

definition scoreResults :: "MetadataAnalysisResult \<Rightarrow> ForensicsAnalysisResult \<Rightarrow> DetailedVerificationResult" where
  \<comment> \<open>The recommendation sentence of the summary is a string template over the same inputs
      and is not part of the model.\<close>
  "scoreResults metadata forensics_r =
     (let allFindings = md_findings metadata @ fr_findings forensics_r;
          criticalFindings = filter (\<lambda>f. ftype f = Critical) allFindings;
          warningFindings = filter (\<lambda>f. ftype f = Warning) allFindings;
          infoFindings = filter (\<lambda>f. ftype f = Info) allFindings;
          riskScore = calculateRiskScore metadata forensics_r;
          aiDetection = detectAIGeneration metadata forensics_r;
          decision = finalStatus metadata criticalFindings riskScore aiDetection
      in \<lparr> status = fst decision,
           confidence = js_round (snd decision),
           riskScore = js_round riskScore,
           processingTime = 0,
           analysis_metadata = metadata,
           analysis_forensics = forensics_r,
           summary = \<lparr> totalFindings = length allFindings,
                       criticalCount = length criticalFindings,
                       warningCount = length warningFindings,
                       infoCount = length infoFindings \<rparr>,
           aiDetection = aiDetection \<rparr>)"

subsection \<open>Strings\<close>

definition lowerChar :: "char \<Rightarrow> char" where
  \<comment> \<open>\<open>toLowerCase\<close> on one 8-bit code unit: A-Z, and the capital letters of Latin-1\<close>
  "lowerChar c =
     (let n = (of_char c :: nat)
      in if (65 \<le> n \<and> n \<le> 90) \<or> (192 \<le> n \<and> n \<le> 222 \<and> n \<noteq> 215) then char_of (n + 32) else c)"

definition toLowerCase :: "string \<Rightarrow> string" where
  "toLowerCase s = map lowerChar s"

fun startsWith :: "string \<Rightarrow> string \<Rightarrow> bool" where
  "startsWith s [] = True"
| "startsWith [] (p # ps) = False"
| "startsWith (c # cs) (p # ps) = (c = p \<and> startsWith cs ps)"

fun includes_str :: "string \<Rightarrow> string \<Rightarrow> bool" where
  "includes_str [] t = (t = [])"
| "includes_str (c # cs) t = (startsWith (c # cs) t \<or> includes_str cs t)"

fun split_str :: "char \<Rightarrow> string \<Rightarrow> string list" where
  \<comment> \<open>\<open>s.split(sep)\<close> for a one-character separator\<close>
  "split_str sep [] = [[]]"
| "split_str sep (c # cs) =
     (if c = sep then [] # split_str sep cs
      else (case split_str sep cs of p # ps \<Rightarrow> (c # p) # ps | [] \<Rightarrow> [[c]]))"

fun replaceFirst :: "char \<Rightarrow> char \<Rightarrow> string \<Rightarrow> string" where
  \<comment> \<open>\<open>s.replace(a, b)\<close> with a string pattern: the first occurrence only\<close>
  "replaceFirst a b [] = []"
| "replaceFirst a b (c # cs) = (if c = a then b # cs else c # replaceFirst a b cs)"

definition isWhiteSpace :: "char \<Rightarrow> bool" where
  \<comment> \<open>the white space and line terminators that \<open>parseInt\<close> skips, among 8-bit code units\<close>
  "isWhiteSpace c = ((of_char c :: nat) \<in> {9, 10, 11, 12, 13, 32, 160})"

definition digitValue :: "char \<Rightarrow> nat option" where
  "digitValue c =
     (let n = (of_char c :: nat)
      in if 48 \<le> n \<and> n \<le> 57 then Some (n - 48)
         else if 97 \<le> n \<and> n \<le> 122 then Some (n - 87)
         else if 65 \<le> n \<and> n \<le> 90 then Some (n - 55)
         else None)"

fun leadingDigits :: "nat \<Rightarrow> string \<Rightarrow> nat list" where
  \<comment> \<open>the values of the longest prefix of digits of the radix\<close>
  "leadingDigits radix [] = []"
| "leadingDigits radix (c # cs) =
     (case digitValue c of
        Some d \<Rightarrow> if d < radix then d # leadingDigits radix cs else []
      | None \<Rightarrow> [])"

definition parseInt :: "string \<Rightarrow> int option" where
  \<comment> \<open>\<open>parseInt(s)\<close> without a radix argument; \<open>None\<close> is \<open>NaN\<close>. The value is the exact
      integer (a double loses precision beyond 2^53).\<close>
  "parseInt s =
     (let s1 = dropWhile isWhiteSpace s;
          negative = (case s1 of c # _ \<Rightarrow> c = CHR ''-'' | [] \<Rightarrow> False);
          s2 = (case s1 of c # r \<Rightarrow> if c = CHR ''-'' \<or> c = CHR ''+'' then r else s1 | [] \<Rightarrow> s1);
          hex = (startsWith s2 ''0x'' \<or> startsWith s2 ''0X'');
          radix = (if hex then 16 else 10);
          s3 = (if hex then drop 2 s2 else s2);
          digits = leadingDigits radix s3;
          magnitude = foldl (\<lambda>acc d. acc * int radix + int d) 0 digits
      in if digits = [] then None
         else Some (if negative then - magnitude else magnitude))"

subsection \<open>AI tool signature database (constants/ai-tools.ts)\<close>

definition DIFFUSION :: "string list" where
  "DIFFUSION =
     [''stable diffusion'', ''automatic1111'', ''comfyui'', ''swarmui'', ''forge'', ''webui'',
      ''sdxl'', ''stablecascade'', ''automatic 1111'', ''a1111'', ''invokeai'', ''invoke ai'',
      ''sd-webui'', ''kohya'', ''diffusers'', ''flux'', ''fooocus'', ''sd1.5'', ''sd2.0'',
      ''sd2.1'', ''sdxl1.0'', ''stable-diffusion'', ''dreamshaper'', ''deliberate'',
      ''realistic vision'', ''cyberrealistic'', ''juggernaut'']"

definition GENERATIVE :: "string list" where
  "GENERATIVE =
     [''dall-e'', ''dalle'', ''dall e'', ''dall'' @ [CHR 0xB7] @ ''e'', ''openai'',
      ''chatgpt'', ''midjourney'', ''mid journey'', ''mj'', ''leonardo ai'', ''leonardo.ai'',
      ''leonardo'', ''ideogram'', ''ideogram.ai'', ''playground ai'', ''playground'',
      ''adobe firefly'', ''firefly'', ''bing image creator'', ''microsoft designer'',
      ''copilot'', ''gemini image'', ''google imagen'', ''imagen'', ''stability ai'',
      ''stability.ai'', ''nightcafe'', ''artbreeder'', ''craiyon'', ''dream'', ''deep dream'',
      ''neural.love'', ''starryai'', ''jasper art'', ''pixlr ai'', ''fotor ai'',
      ''picsart ai'', ''runwayml'', ''runway'', ''kaiber'', ''synthesia'', ''d-id'',
      ''heygen'', ''luma ai'', ''pika labs'', ''pika'', ''kling ai'', ''sora'', ''gen-2'',
      ''gen-3'', ''suno'', ''udio'']"

definition EDITING :: "string list" where
  "EDITING =
     [''adobe photoshop'', ''photoshop'', ''adobe lightroom'', ''lightroom'',
      ''adobe after effects'', ''after effects'', ''adobe premiere'', ''gimp'',
      ''gnu image manipulation'', ''canva'', ''affinity photo'', ''affinity designer'',
      ''skylum luminar'', ''luminar'', ''capture one'', ''dxo photolab'', ''photolab'',
      ''darktable'', ''rawtherapee'', ''on1'', ''corel painter'', ''pixelmator'',
      ''procreate'', ''clip studio'', ''krita'', ''photopea'']"

definition EXPORT_TOOLS :: "string list" where
  "EXPORT_TOOLS =
     [''screenshot'', ''snipping tool'', ''screen capture'', ''grab'', ''preview'', ''paint'',
      ''mspaint'', ''chrome'', ''safari'', ''firefox'', ''edge'', ''figma'', ''sketch'',
      ''adobe xd'', ''design tool'', ''windows photo'', ''photos'', ''image viewer'',
      ''snagit'', ''greenshot'', ''lightshot'', ''sharex'', ''gyazo'']"

definition AI_MARKERS :: "string list" where
  "AI_MARKERS =
     [''ai-generated'', ''ai generated'', ''ai_generated'', ''artificial intelligence'',
      ''machine learning'', ''neural network'', ''diffusion model'',
      ''generative adversarial'', ''gan'', ''text-to-image'', ''text to image'', ''t2i'',
      ''image generation'', ''image synthesis'', ''stable diffusion'', ''synthid'', ''c2pa'',
      ''contentcredentials'', ''content credentials'', ''parameters:'', ''negative prompt:'',
      ''negative_prompt'', ''steps:'', ''cfg scale:'', ''cfg_scale'', ''seed:'', ''model:'',
      ''sampler:'', ''scheduler:'', ''denoising strength:'', ''denoising_strength'',
      ''clip skip:'', ''clip_skip'', ''batch size:'', ''batch_size'', ''hires fix'',
      ''hires. fix'', ''upscale'', ''upscaler'', ''lora:'', ''lora_'', ''<lora:'', ''lyco:'',
      ''embedding:'', ''ti:'', ''hypernetwork'', ''hypernet'', ''controlnet'', ''inpaint'',
      ''img2img'', ''txt2img'', ''latent'', ''vae'', ''version:'', ''aspect ratio:'', ''--ar'',
      ''--v'', ''--quality'', ''--q'', ''--stylize'', ''--s'', ''--chaos'', ''--c'',
      ''--weird'', ''--w'', ''--niji'', ''--style'', ''--tile'', ''--repeat'', ''--no'',
      ''--iw'', ''workflow'', ''node_'', ''ksampler'', ''checkpoint'',
      ''positive_conditioning'', ''negative_conditioning'']"

definition PNG_AI_CHUNK_KEYWORDS :: "string list" where
  "PNG_AI_CHUNK_KEYWORDS =
     [''parameters'', ''prompt'', ''negative prompt'', ''negative_prompt'',
      ''positive prompt'', ''workflow'', ''comfyui'', ''automatic1111'', ''stable diffusion'',
      ''steps:'', ''cfg scale:'', ''cfg_scale'', ''seed:'', ''sampler:'', ''scheduler:'',
      ''model:'', ''checkpoint'', ''lora'', ''lyco'', ''hypernetwork'', ''hires fix'',
      ''denoising'', ''inpaint'', ''controlnet'', ''adetailer'', ''upscale'', ''latent'',
      ''vae:'', ''clip skip'', ''midjourney'', ''version:'', ''aspect ratio:'', ''chaos:'',
      ''stylize:'', ''weird:'', ''quality:'', ''--ar'', ''--v '', ''--q '', ''--s '',
      ''dall-e'', ''dalle'', ''openai'', ''ksampler'', ''checkpoint_loader'',
      ''clip_text_encode'', ''empty_latent'', ''vae_decode'', ''save_image'', ''leonardo'',
      ''alchemy'', ''photoreal'', ''phoenix'', ''ai generated'', ''generated by'',
      ''created with'']"

definition AI_TOOLS_SIGNATURES :: "(string \<times> string list) list" where
  \<comment> \<open>the entries of the object, in the order \<open>Object.entries\<close> enumerates them\<close>
  "AI_TOOLS_SIGNATURES =
     [(''DIFFUSION'', DIFFUSION), (''GENERATIVE'', GENERATIVE), (''EDITING'', EDITING),
      (''EXPORT_TOOLS'', EXPORT_TOOLS), (''AI_MARKERS'', AI_MARKERS)]"

record ToolDetection =
  detected :: bool
  det_tool :: "string option"
  det_type :: "string option"
  det_confidence :: "real option"

definition categoryConfidence :: "string \<Rightarrow> real" where
  "categoryConfidence cat =
     (if cat = ''DIFFUSION'' \<or> cat = ''GENERATIVE'' then 95
      else if cat = ''AI_MARKERS'' then 90
      else if cat = ''EDITING'' then 40
      else 30)"

definition detectAITool :: "string \<Rightarrow> ToolDetection" where
  \<comment> \<open>The two nested loops return at the first category, in table order, one of whose
      keywords occurs in the lower-cased software string.\<close>
  "detectAITool software_str =
     (if software_str = [] then \<lparr> detected = False, det_tool = None, det_type = None, det_confidence = None \<rparr>
      else
        let lowerSoftware = toLowerCase software_str
        in case find (\<lambda>(cat, tools). list_ex (\<lambda>t. includes_str lowerSoftware t) tools) AI_TOOLS_SIGNATURES of
             Some (cat, tools) \<Rightarrow>
               \<lparr> detected = True,
                 det_tool = Some software_str,
                 det_type = Some (toLowerCase (replaceFirst CHR ''_'' CHR '' '' cat)),
                 det_confidence = Some (categoryConfidence cat) \<rparr>
           | None \<Rightarrow> \<lparr> detected = False, det_tool = None, det_type = None, det_confidence = None \<rparr>)"

definition isExportTool :: "string \<Rightarrow> bool" where
  "isExportTool software_str =
     (if software_str = [] then False
      else let lowerSoftware = toLowerCase software_str
           in list_ex (\<lambda>t. includes_str lowerSoftware t) EXPORT_TOOLS)"

subsection \<open>Date parsing (utils.ts)\<close>

definition partAt :: "string list \<Rightarrow> nat \<Rightarrow> int option" where
  \<comment> \<open>\<open>parseInt(parts[i])\<close>; a missing element is \<open>undefined\<close>, which parses to \<open>NaN\<close>\<close>
  "partAt parts i = (if i < length parts then parseInt (parts ! i) else None)"

definition newDate :: "string list \<Rightarrow> string list \<Rightarrow> js_date" where
  \<comment> \<open>the \<open>new Date(...)\<close> expression shared by the two parsers\<close>
  "newDate dateParts timeParts =
     DateOf (partAt dateParts 0)
            (map_option (\<lambda>m. m - 1) (partAt dateParts 1))
            (partAt dateParts 2)
            (partAt timeParts 0)
            (partAt timeParts 1)
            (partAt timeParts 2)"

definition parseEXIFDate :: "string \<Rightarrow> js_date option" where
  \<comment> \<open>\<open>None\<close> is \<open>null\<close>. No statement of the \<open>try\<close> block can throw on a string argument.\<close>
  "parseEXIFDate dateStr =
     (if dateStr = [] then None
      else
        let parts = split_str CHR '' '' dateStr
        in if length parts \<noteq> 2 then None
           else
             let dateParts = split_str CHR '':'' (parts ! 0)
             in if length dateParts \<noteq> 3 then None
                else
                  let timeParts = split_str CHR '':'' (parts ! 1)
                  in if length timeParts \<noteq> 3 then None
                     else Some (newDate dateParts timeParts))"

definition parseGPSTimestamp :: "string \<Rightarrow> string \<Rightarrow> js_date option" where
  "parseGPSTimestamp dateStr timeStr =
     (if dateStr = [] \<or> timeStr = [] then None
      else
        let dateParts = split_str CHR '':'' dateStr;
            timeParts = split_str CHR '':'' timeStr
        in Some (newDate dateParts timeParts))"

definition isInvalidDate :: "js_date \<Rightarrow> bool" where
  \<comment> \<open>a Date built from a \<open>NaN\<close> argument has the time value \<open>NaN\<close>\<close>
  "isInvalidDate d =
     (case d of DateOf y mo dd h mi s \<Rightarrow> y = None \<or> mo = None \<or> dd = None \<or> h = None \<or> mi = None \<or> s = None)"

subsection \<open>Metadata analyzer: GPS coordinates (metadata-analyzer.ts)\<close>

definition quotient :: "int \<times> int \<Rightarrow> real option" where
  \<comment> \<open>\<open>r[0] / r[1]\<close> for a rational of the EXIF reader, a pair of integers that are exact
      doubles: the correctly rounded quotient; \<open>None\<close> when the denominator is 0, where
      JavaScript yields \<open>Infinity\<close> or \<open>NaN\<close>\<close>
  "quotient r = (if snd r = 0 then None else Some (fl (real_of_int (fst r) / real_of_int (snd r))))"

definition convertDMSToDecimal :: "(int \<times> int) list option \<Rightarrow> string option \<Rightarrow> coordinate option" where
  \<comment> \<open>\<open>None\<close> is \<open>undefined\<close>. The argument is absent or an array of rationals. Each
      division, addition and multiplication is rounded to a double; the negation and
      \<open>Math.round\<close> are exact.\<close>
  "convertDMSToDecimal dms ref =
     (case dms of
        None \<Rightarrow> None
      | Some d \<Rightarrow>
          if length d < 3 then None
          else
            (case (quotient (d ! 0), quotient (d ! 1), quotient (d ! 2)) of
               (Some degrees, Some minutes, Some seconds) \<Rightarrow>
                 let decimal = fl (fl (degrees + fl (minutes / 60)) + fl (seconds / 3600));
                     decimal = (if ref = Some ''S'' \<or> ref = Some ''W'' then - decimal else decimal)
                 in Some (Decimal (fl (js_round (fl (decimal * 1000000)) / 1000000)))
             | _ \<Rightarrow> Some NotFinite))"

subsection \<open>Buffers and PNG chunks (utils.ts)\<close>

datatype js_error = RangeError | TypeError | LibraryError
  \<comment> \<open>a thrown exception: an out-of-range Buffer read, a type error, or a failure raised
      inside an external library (base64 decoding, EXIF reader, image decoder)\<close>

type_synonym byte = "8 word"

type_synonym buffer = "byte list"

definition readUInt16BE :: "buffer \<Rightarrow> nat \<Rightarrow> js_error + nat" where
  "readUInt16BE buf off =
     (if off + 2 \<le> length buf
      then Inr (unat (buf ! off) * 256 + unat (buf ! (off + 1)))
      else Inl RangeError)"

definition readUInt32BE :: "buffer \<Rightarrow> nat \<Rightarrow> js_error + nat" where
  "readUInt32BE buf off =
     (if off + 4 \<le> length buf
      then Inr (unat (buf ! off) * 16777216 + unat (buf ! (off + 1)) * 65536
                + unat (buf ! (off + 2)) * 256 + unat (buf ! (off + 3)))
      else Inl RangeError)"

definition subarray :: "buffer \<Rightarrow> nat \<Rightarrow> nat \<Rightarrow> buffer" where
  \<comment> \<open>\<open>buf.subarray(start, end)\<close>: both ends are clamped to the buffer\<close>
  "subarray buf start end = take (end - start) (drop start buf)"

definition asciiString :: "buffer \<Rightarrow> string" where
  \<comment> \<open>\<open>toString('ascii')\<close>: the high bit of every byte is dropped\<close>
  "asciiString buf = map (\<lambda>b. char_of (unat b mod 128)) buf"

definition latin1String :: "buffer \<Rightarrow> string" where
  "latin1String buf = map (\<lambda>b. char_of (unat b)) buf"

fun scanIndex :: "buffer \<Rightarrow> byte \<Rightarrow> nat \<Rightarrow> int" where
  "scanIndex [] v i = - 1"
| "scanIndex (b # bs) v i = (if b = v then int i else scanIndex bs v (i + 1))"

definition indexOf :: "buffer \<Rightarrow> byte \<Rightarrow> nat \<Rightarrow> int" where
  \<comment> \<open>\<open>buf.indexOf(value, byteOffset)\<close> for a non-negative offset; \<open>-1\<close> when not found\<close>
  "indexOf buf v start = scanIndex (drop start buf) v start"

definition mapSet :: "string \<Rightarrow> string \<Rightarrow> (string \<times> string) list \<Rightarrow> (string \<times> string) list" where
  \<comment> \<open>\<open>Map.set\<close>: a Map enumerates its entries in insertion order, and setting an existing
      key keeps its place\<close>
  "mapSet k v m =
     (if k \<in> set (map fst m) then map (\<lambda>(k', v'). if k' = k then (k', v) else (k', v')) m
      else m @ [(k, v)])"

definition PNG_SIGNATURE :: buffer where
  "PNG_SIGNATURE = [0x89, 0x50, 0x4E, 0x47, 0x0D, 0x0A, 0x1A, 0x0A]"

definition textChunk ::
  "(buffer \<Rightarrow> string) \<Rightarrow> string \<Rightarrow> buffer \<Rightarrow> (string \<times> string) list \<Rightarrow> string option
   \<Rightarrow> (string \<times> string) list \<times> string option" where
  \<comment> \<open>utils.ts, "Parse text chunks": the new \<open>chunks\<close> and \<open>textContent\<close>. The utf-8 decoder
      of the Buffer library is the parameter \<open>utf8\<close>. Nothing inside the \<open>try\<close> can throw.\<close>
  "textChunk utf8 type chunkData chunks textContent =
     (if type = ''tEXt'' \<or> type = ''zTXt'' \<or> type = ''iTXt'' then
        let (chunks', chunkText) =
              (if type = ''iTXt'' then
                 let nullIdx1 = indexOf chunkData 0 0;
                     nullIdx2 = indexOf chunkData 0 (nat (nullIdx1 + 1));
                     nullIdx3 = indexOf chunkData 0 (nat (nullIdx2 + 1))
                 in if nullIdx3 > 0
                    then (chunks, Some (utf8 (drop (nat (nullIdx3 + 1)) chunkData)))
                    else (chunks, None)
               else if type = ''zTXt'' then
                 let nullIdx = indexOf chunkData 0 0
                 in if nullIdx > 0
                    then (chunks, Some (utf8 (drop (nat (nullIdx + 1)) chunkData)))
                    else (chunks, None)
               else
                 let nullIdx = indexOf chunkData 0 0
                 in if nullIdx > 0
                    then
                      let keyword = asciiString (take (nat nullIdx) chunkData);
                          chunkText = latin1String (drop (nat (nullIdx + 1)) chunkData)
                      in (mapSet (toLowerCase keyword) chunkText chunks, Some chunkText)
                    else (chunks, None))
        in (chunks', if truthy chunkText then chunkText else textContent)
      else (chunks, textContent))"

function pngLoop ::
  "(buffer \<Rightarrow> string) \<Rightarrow> buffer \<Rightarrow> nat \<Rightarrow> (string \<times> string) list \<Rightarrow> string option
   \<Rightarrow> js_error + ((string \<times> string) list \<times> string option)" where
  \<comment> \<open>the \<open>while\<close> loop of parsePNGChunks; reading the CRC past the end of the buffer throws\<close>
  "pngLoop utf8 buf offset chunks textContent =
     (if offset + 8 \<le> length buf then
        (case readUInt32BE buf offset of
           Inl e \<Rightarrow> Inl e
         | Inr len \<Rightarrow>
             (case readUInt32BE buf (offset + 8 + len) of
                Inl e \<Rightarrow> Inl e
              | Inr crc \<Rightarrow>
                  if asciiString (subarray buf (offset + 4) (offset + 8)) = ''IEND''
                  then Inr (textChunk utf8 (asciiString (subarray buf (offset + 4) (offset + 8)))
                              (subarray buf (offset + 8) (offset + 8 + len)) chunks textContent)
                  else pngLoop utf8 buf (offset + 12 + len)
                         (fst (textChunk utf8 (asciiString (subarray buf (offset + 4) (offset + 8)))
                                 (subarray buf (offset + 8) (offset + 8 + len)) chunks textContent))
                         (snd (textChunk utf8 (asciiString (subarray buf (offset + 4) (offset + 8)))
                                 (subarray buf (offset + 8) (offset + 8 + len)) chunks textContent))))
      else Inr (chunks, textContent))"
  by pat_completeness auto
termination
  by (relation "measure (\<lambda>(utf8, buf, offset, chunks, textContent). length buf - offset)") auto

definition parsePNGChunks :: "(buffer \<Rightarrow> string) \<Rightarrow> buffer \<Rightarrow> js_error + (string \<times> string) list" where
  "parsePNGChunks utf8 buf =
     (if subarray buf 0 8 \<noteq> PNG_SIGNATURE then Inr []
      else
        (case pngLoop utf8 buf 8 [] None of
           Inl e \<Rightarrow> Inl e
         | Inr (chunks, textContent) \<Rightarrow>
             Inr (if truthy textContent then mapSet ''tEXt'' (the textContent) chunks else chunks)))"

function c2paLoop :: "buffer \<Rightarrow> nat \<Rightarrow> js_error + bool" where
  \<comment> \<open>the \<open>while\<close> loop of hasC2PAMetadata. The second byte is compared with the 16-bit
      constant \<open>APP13_MARKER = 0xFFED\<close>, as in the source.\<close>
  "c2paLoop buf offset =
     (if offset + 2 < length buf then
        if unat (buf ! offset) = 0xFF \<and> unat (buf ! (offset + 1)) = 0xFFED then
          (case readUInt16BE buf (offset + 2) of
             Inl e \<Rightarrow> Inl e
           | Inr len \<Rightarrow>
               if offset + 4 + len > length buf then Inr False
               else if includes_str (latin1String (subarray buf (offset + 4) (offset + 4 + len))) ''jumb''
               then Inr True
               else c2paLoop buf (offset + 4 + len))
        else c2paLoop buf (offset + 1)
      else Inr False)"
  by pat_completeness auto
termination
  by (relation "measure (\<lambda>(buf, offset). length buf - offset)") auto

definition hasC2PAMetadata :: "buffer \<Rightarrow> js_error + bool" where
  "hasC2PAMetadata buf = c2paLoop buf 2"

definition isImagePNG :: "string \<Rightarrow> bool" where
  "isImagePNG data = startsWith data ''data:image/png''"

definition isImageJPEG :: "string \<Rightarrow> bool" where
  "isImageJPEG data = (startsWith data ''data:image/jpeg'' \<or> startsWith data ''data:image/jpg'')"

subsection \<open>Metadata analyzer (metadata-analyzer.ts)\<close>

record ExifData =
  \<comment> \<open>the tags that analyzeMetadata reads from the object returned by the EXIF reader\<close>
  exif_make :: "string option"
  exif_model :: "string option"
  exif_software :: "string option"
  exif_lensModel :: "string option"
  exif_orientation :: "nat option"
  exif_xResolution :: "(int \<times> int) option"
  exif_yResolution :: "(int \<times> int) option"
  gps_latitude :: "(int \<times> int) list option"
  gps_longitude :: "(int \<times> int) list option"
  gps_latitudeRef :: "string option"
  gps_longitudeRef :: "string option"
  gps_altitude :: "(int \<times> int) option"
  exif_dateTimeOriginal :: "string option"
  exif_dateTimeDigitized :: "string option"
  exif_dateTime :: "string option"
  gps_dateStamp :: "string option"
  gps_timeStamp :: "string option"

record md_state =
  \<comment> \<open>the local variables of analyzeMetadata\<close>
  st_findings :: "Finding list"
  st_aiSignatures :: "AISignature list"
  st_cameraInfo :: "CameraInfo option"
  st_gpsInfo :: "GPSInfo option"
  st_timestamps :: "TimestampAnalysis option"
  st_hasEXIF :: bool
  st_hasGPS :: bool

definition initialState :: md_state where
  "initialState =
     \<lparr> st_findings = [], st_aiSignatures = [], st_cameraInfo = None, st_gpsInfo = None,
       st_timestamps = None, st_hasEXIF = False, st_hasGPS = False \<rparr>"

definition mkFinding :: "finding_type \<Rightarrow> real \<Rightarrow> finding_category \<Rightarrow> string \<Rightarrow> Finding" where
  "mkFinding t sev cat msg = \<lparr> ftype = t, severity = sev, category = cat, message = msg \<rparr>"

definition parseOptional :: "string option \<Rightarrow> js_date option" where
  \<comment> \<open>parseEXIFDate on a tag that may be absent\<close>
  "parseOptional tag = (case tag of None \<Rightarrow> None | Some v \<Rightarrow> parseEXIFDate v)"

definition differBy :: "(js_date \<Rightarrow> real option) \<Rightarrow> js_date \<Rightarrow> js_date \<Rightarrow> real \<Rightarrow> bool" where
  \<comment> \<open>\<open>Math.abs(a.getTime() - b.getTime()) > limit\<close>; \<open>getTime\<close> is \<open>None\<close> for an Invalid
      Date, and a comparison with \<open>NaN\<close> is false\<close>
  "differBy getTime a b limit =
     (case (getTime a, getTime b) of
        (Some x, Some y) \<Rightarrow> \<bar>x - y\<bar> > limit
      | _ \<Rightarrow> False)"

definition analyzeTimestamps :: "(js_date \<Rightarrow> real option) \<Rightarrow> real \<Rightarrow> ExifData \<Rightarrow> TimestampAnalysis" where
  \<comment> \<open>The time value of a Date (which depends on the local time zone) and the current time
      are the parameters \<open>getTime\<close> and \<open>now\<close>.\<close>
  "analyzeTimestamps getTime now exif =
     (let original = parseOptional (exif_dateTimeOriginal exif);
          digitized = parseOptional (exif_dateTimeDigitized exif);
          dateTime = parseOptional (exif_dateTime exif);
          gpsTime = (case (gps_dateStamp exif, gps_timeStamp exif) of
                       (Some d, Some t) \<Rightarrow> parseGPSTimestamp d t
                     | _ \<Rightarrow> None);
          inconsistencies =
            (case (original, digitized) of
               (Some a, Some b) \<Rightarrow>
                 if differBy getTime a b 60000
                 then [mkFinding Warning 25 CatMetadata ''Timestamp inconsistency detected'']
                 else []
             | _ \<Rightarrow> [])
            @ (case original of
                 Some a \<Rightarrow>
                   (case getTime a of
                      Some t \<Rightarrow> if t > now then [mkFinding Warning 40 CatMetadata ''Future timestamp detected''] else []
                    | None \<Rightarrow> [])
               | None \<Rightarrow> [])
            @ (case (gpsTime, original) of
                 (Some g, Some a) \<Rightarrow>
                   if differBy getTime g a 30000
                   then [mkFinding Warning 20 CatMetadata ''GPS timestamp mismatch'']
                   else []
               | _ \<Rightarrow> [])
      in \<lparr> exifDateTimeOriginal = original,
           exifDateTimeDigitized = digitized,
           exifDateTime = dateTime,
           gpsTimestamp = gpsTime,
           inconsistencies = inconsistencies \<rparr>)"

definition scanSoftware :: "string \<Rightarrow> md_state \<Rightarrow> md_state" where
  \<comment> \<open>metadata-analyzer.ts, "Check for AI tools in software field" and "Check for export
      tools", for a non-empty Software string\<close>
  "scanSoftware software_str st =
     (let aiDetection = detectAITool software_str;
          st = (if detected aiDetection
                then st\<lparr> st_aiSignatures := st_aiSignatures st @
                            [\<lparr> tool = det_tool aiDetection,
                               toolType = det_type aiDetection,
                               sig_confidence = 95,
                               sig_evidence = ''Software field contains: '' @ [CHR 0x22] @ software_str @ [CHR 0x22] \<rparr>],
                          st_findings := st_findings st @
                            [mkFinding Critical 100 CatAiSignature
                               (''AI generation software detected: '' @ the (det_tool aiDetection))] \<rparr>
                else st);
          st = (if isExportTool software_str
                then st\<lparr> st_findings := st_findings st @
                            [mkFinding Warning 50 CatMetadata ''Export tool detected''] \<rparr>
                else st)
      in st)"

definition gpsAltitudeValue :: "(int \<times> int) option \<Rightarrow> coordinate option" where
  \<comment> \<open>\<open>gpsAltitude ? gpsAltitude[0] / gpsAltitude[1] : undefined\<close>\<close>
  "gpsAltitudeValue a =
     (case a of
        None \<Rightarrow> None
      | Some r \<Rightarrow> (case quotient r of Some q \<Rightarrow> Some (Decimal q) | None \<Rightarrow> Some NotFinite))"

definition analyzeJPEG ::
  "(js_date \<Rightarrow> real option) \<Rightarrow> real \<Rightarrow> js_error + ExifData \<Rightarrow> md_state \<Rightarrow> md_state" where
  \<comment> \<open>the branch \<open>if (isJPEG)\<close>; the outcome of \<open>piexif.load\<close> is a parameter\<close>
  "analyzeJPEG getTime now loaded st =
     (case loaded of
        Inl exifError \<Rightarrow>
          st\<lparr> st_findings := st_findings st @
                 [mkFinding Warning 35 CatMetadata ''Unable to parse EXIF metadata''] \<rparr>
      | Inr exif \<Rightarrow>
          let st = st\<lparr> st_hasEXIF := True \<rparr>;
              st = st\<lparr> st_cameraInfo := Some
                         \<lparr> cam_make = exif_make exif,
                           cam_model = exif_model exif,
                           software = exif_software exif,
                           lensModel = exif_lensModel exif,
                           orientation = exif_orientation exif,
                           xResolution = exif_xResolution exif,
                           yResolution = exif_yResolution exif \<rparr> \<rparr>;
              st = (if truthy (exif_software exif) then scanSoftware (the (exif_software exif)) st else st);
              st = (if \<not> truthy (exif_make exif)
                    then st\<lparr> st_findings := st_findings st @
                                [mkFinding Warning 40 CatMetadata ''Missing camera manufacturer information''] \<rparr>
                    else st);
              st = st\<lparr> st_hasGPS := (gps_latitude exif \<noteq> None \<and> gps_longitude exif \<noteq> None) \<rparr>;
              st = (if st_hasGPS st
                    then st\<lparr> st_gpsInfo := Some
                               \<lparr> latitude = convertDMSToDecimal (gps_latitude exif) (gps_latitudeRef exif),
                                 longitude = convertDMSToDecimal (gps_longitude exif) (gps_longitudeRef exif),
                                 altitude = gpsAltitudeValue (gps_altitude exif),
                                 latitudeRef = gps_latitudeRef exif,
                                 longitudeRef = gps_longitudeRef exif \<rparr> \<rparr>
                    else st\<lparr> st_findings := st_findings st @
                                [mkFinding Warning 30 CatMetadata ''Missing GPS location data''] \<rparr>);
              timestampAnalysis = analyzeTimestamps getTime now exif;
              st = (if length (inconsistencies timestampAnalysis) > 0
                    then st\<lparr> st_timestamps := Some timestampAnalysis,
                              st_findings := st_findings st @ inconsistencies timestampAnalysis \<rparr>
                    else st)
          in st)"

definition scanChunk :: "string \<times> string \<Rightarrow> md_state \<Rightarrow> md_state" where
  \<comment> \<open>body of the loop over the entries of the chunk map: the inner loop stops at the first
      keyword of the list that occurs in the lower-cased content\<close>
  "scanChunk entry st =
     (case entry of (keyword, content) \<Rightarrow>
        let lowerContent = toLowerCase content
        in case find (\<lambda>aiKeyword. includes_str lowerContent aiKeyword) PNG_AI_CHUNK_KEYWORDS of
             Some aiKeyword \<Rightarrow>
               st\<lparr> st_findings := st_findings st @
                      [mkFinding Critical 100 CatAiSignature ''AI generation parameters detected in PNG chunks''],
                    st_aiSignatures := st_aiSignatures st @
                      [\<lparr> tool = Some ''Unknown PNG-based AI tool'',
                         toolType = Some ''diffusion'',
                         sig_confidence = 90,
                         sig_evidence = ''PNG '' @ keyword @ '' chunk contains: '' @ aiKeyword \<rparr>] \<rparr>
           | None \<Rightarrow> st)"

definition analyzePNG :: "(buffer \<Rightarrow> string) \<Rightarrow> buffer \<Rightarrow> md_state \<Rightarrow> js_error + md_state" where
  \<comment> \<open>the \<open>else\<close> branch, "PNG specific analysis"; an exception of parsePNGChunks or
      hasC2PAMetadata leaves the branch\<close>
  "analyzePNG utf8 buf st =
     (let st = st\<lparr> st_findings := st_findings st @
                      [mkFinding Info 15 CatMetadata ''PNG format - limited EXIF support''] \<rparr>
      in case parsePNGChunks utf8 buf of
           Inl e \<Rightarrow> Inl e
         | Inr pngChunks \<Rightarrow>
             let st = fold scanChunk pngChunks st
             in case hasC2PAMetadata buf of
                  Inl e \<Rightarrow> Inl e
                | Inr c2pa \<Rightarrow>
                    let st = (if c2pa
                              then st\<lparr> st_findings := st_findings st @
                                          [mkFinding Warning 45 CatMetadata ''C2PA/JUMBF metadata detected''] \<rparr>
                              else st);
                        st = (if \<not> st_hasEXIF st
                              then st\<lparr> st_findings := st_findings st @
                                          [mkFinding Warning 35 CatMetadata ''No EXIF metadata found''] \<rparr>
                              else st)
                    in Inr st)"

definition overallStatus :: "md_state \<Rightarrow> MetadataAnalysisResult" where
  \<comment> \<open>"Determine overall status" and the returned object\<close>
  "overallStatus st =
     (let hasCriticalAI = list_ex (\<lambda>f. ftype f = Critical \<and> category f = CatAiSignature) (st_findings st);
          hasWarnings = list_ex (\<lambda>f. severity f \<ge> 40) (st_findings st)
      in \<lparr> md_status = (if hasCriticalAI then Failed else (if hasWarnings then WarningStatus else Passed)),
           md_findings = st_findings st,
           cameraInfo = st_cameraInfo st,
           timestamps = st_timestamps st,
           aiSignatures = Some (st_aiSignatures st),
           gpsInfo = st_gpsInfo st,
           hasEXIF = st_hasEXIF st,
           hasGPS = st_hasGPS st \<rparr>)"

definition analysisFailed :: MetadataAnalysisResult where
  \<comment> \<open>the object returned by the outer \<open>catch\<close>\<close>
  "analysisFailed =
     \<lparr> md_status = Failed,
       md_findings = [mkFinding Critical 100 CatMetadata ''Metadata analysis failed''],
       cameraInfo = None, timestamps = None, aiSignatures = None, gpsInfo = None,
       hasEXIF = False, hasGPS = False \<rparr>"

definition analyzeMetadata ::
  "(buffer \<Rightarrow> string) \<Rightarrow> (js_date \<Rightarrow> real option) \<Rightarrow> real
   \<Rightarrow> string \<Rightarrow> js_error + buffer \<Rightarrow> js_error + ExifData \<Rightarrow> MetadataAnalysisResult" where
  \<comment> \<open>\<open>imageData\<close> is the data URL; \<open>extracted\<close> is the outcome of extractBase64 on it and
      \<open>loaded\<close> the outcome of the EXIF reader.\<close>
  "analyzeMetadata utf8 getTime now imageData extracted loaded =
     (case extracted of
        Inl e \<Rightarrow> analysisFailed
      | Inr buf \<Rightarrow>
          if isImageJPEG imageData
          then overallStatus (analyzeJPEG getTime now loaded initialState)
          else (case analyzePNG utf8 buf initialState of
                  Inl e \<Rightarrow> analysisFailed
                | Inr st \<Rightarrow> overallStatus st))"

subsection \<open>Forensics analyzer: the five sub-analyses (forensics-analyzer.ts)\<close>

text \<open>
  Four of the sub-analyses decode the image with an external library and measure the raster
  in loops that cannot throw; their model takes the outcome of that part as its argument:
  the measured statistics, or the exception raised on the way. The JPEG structure analysis
  reads the file bytes itself and is modelled in full.
\<close>

record ela_stats =
  s_variance :: real
  s_meanDiff :: real
  s_maxDiff :: real
  s_hotspotCount :: real
  s_hotspotPercentage :: real

definition analyzeELA :: "js_error + ela_stats \<Rightarrow> ELAAnalysis" where
  "analyzeELA measured =
     (case measured of
        Inr m \<Rightarrow> elaResult (s_variance m) (s_meanDiff m) (s_maxDiff m) (s_hotspotCount m) (s_hotspotPercentage m)
      | Inl error \<Rightarrow>
          \<lparr> variance = 0, meanDifference = 0, maxDifference = 0, hotspotCount = 0,
            hotspotPercentage = 0, hasManipulation = False, ela_severity = 0 \<rparr>)"

record freq_stats =
  s_hGradSum :: real
  s_vGradSum :: real
  s_patternRepetitions :: nat

definition blockCount :: nat where
  \<comment> \<open>\<open>blockScores.length\<close>: 31 x 31 blocks of 8 x 8 pixels in the 256 x 256 raster\<close>
  "blockCount = 961"

definition analyzeFrequencyDomain :: "js_error + freq_stats \<Rightarrow> FrequencyAnalysis" where
  "analyzeFrequencyDomain measured =
     (case measured of
        Inr m \<Rightarrow>
          let gridArtifactScore = (real (s_patternRepetitions m) / (real blockCount / 4)) * 100;
              totalGradient = s_hGradSum m + s_vGradSum m;
              gradientBalance = \<bar>s_hGradSum m - s_vGradSum m\<bar> / (totalGradient + 1);
              anomalies = (gridArtifactScore > 40 \<or> gradientBalance > 0.3)
          in \<lparr> hasAnomalies = anomalies,
               anomalyType =
                 (if gridArtifactScore > 50 then ''grid_artifacts''
                  else if gradientBalance > 0.35 then ''gradient_imbalance''
                  else if real (s_patternRepetitions m) > real blockCount * 0.3 then ''periodic_patterns''
                  else ''none''),
               spectralEnergy = totalGradient / 256,
               gridArtifacts = (gridArtifactScore > 30),
               periodicPatterns = (s_patternRepetitions m > 10),
               freq_severity =
                 (if anomalies then min 80 (max gridArtifactScore (gradientBalance * 100 + 20)) else 0) \<rparr>
      | Inl error \<Rightarrow>
          \<lparr> hasAnomalies = False, anomalyType = ''error'', spectralEnergy = 0,
            gridArtifacts = False, periodicPatterns = False, freq_severity = 0 \<rparr>)"

record texture_stats =
  s_nonEmptyBins :: nat
  s_maxBinValue :: nat
  s_uniformPatterns :: nat
  s_repetitionScore :: nat

definition analyzeTexturePatterns :: "js_error + texture_stats \<Rightarrow> TextureAnalysis" where
  "analyzeTexturePatterns measured =
     (case measured of
        Inr m \<Rightarrow>
          let totalSamples = (256 - 2) * (256 - 2);
              uniformRatio = real (s_uniformPatterns m) / totalSamples;
              richness = real (s_nonEmptyBins m) / 256;
              dominance = real (s_maxBinValue m) / totalSamples;
              maxPossibleRepetitions = ((256 / (16 / 2)) ^ 2) / 2;
              normalizedRepetition = real (s_repetitionScore m) / maxPossibleRepetitions;
              natural = (richness * 0.3 + uniformRatio * 0.4 + (1 - dominance) * 0.3) * 100;
              artificial = (natural < 40 \<or> normalizedRepetition > 0.3 \<or> dominance > 0.15)
          in \<lparr> naturalness = natural,
               repetitionScore = normalizedRepetition * 100,
               microPatternScore = dominance * 100,
               textureRichness = richness,
               isArtificial = artificial,
               tex_severity =
                 (if artificial
                  then (if normalizedRepetition > 0.4 then 75
                        else if natural < 30 then 70
                        else if dominance > 0.2 then 60
                        else 50)
                  else 0) \<rparr>
      | Inl error \<Rightarrow>
          \<lparr> naturalness = 50, repetitionScore = 0, microPatternScore = 0, textureRichness = 0.5,
            isArtificial = False, tex_severity = 0 \<rparr>)"

record artifact_stats =
  s_checkerboardScore :: nat
  s_bandingScore :: nat
  s_blurMean :: real
  s_blurVariance :: real
  s_edgeMean :: real
  s_edgeRatio :: real
  s_reflectionScore :: nat

fun join :: "string \<Rightarrow> string list \<Rightarrow> string" where
  \<comment> \<open>\<open>xs.join(sep)\<close>\<close>
  "join sep [] = []"
| "join sep [x] = x"
| "join sep (x # y # ys) = x @ sep @ join sep (y # ys)"

definition detectAIArtifacts :: "js_error + artifact_stats \<Rightarrow> AIArtifactAnalysis" where
  "detectAIArtifacts measured =
     (case measured of
        Inr m \<Rightarrow>
          let checkerboard = (real (s_checkerboardScore m) / ((512 / 4) ^ 2) > 0.05);
              banding = (real (s_bandingScore m) > 512 * 0.1);
              blur = (s_blurVariance m > s_blurMean m * 1.5);
              edges = (s_edgeMean m < 5 \<or> s_edgeMean m > 50 \<or> s_edgeRatio m > 5);
              reflectionRatio = real (s_reflectionScore m) / ((512 / 3) * 512);
              reflections = (reflectionRatio > 0.4 \<and> reflectionRatio < 0.8);
              types = (if checkerboard then [''checkerboard_artifacts''] else [])
                      @ (if banding then [''color_banding''] else [])
                      @ (if blur then [''blur_inconsistency''] else [])
                      @ (if edges then [''unnatural_edges''] else [])
                      @ (if reflections then [''suspicious_reflections''] else []);
              gan = (if checkerboard then 30 else 0);
              diffusion = (if banding then 20 else 0) + (if blur then 25 else 0)
                          + (if edges then 20 else 0) + (if reflections then 15 else 0);
              artifacts = (length types > 0);
              total = gan + diffusion
          in \<lparr> hasArtifacts = artifacts,
               artifactTypes = types,
               ganFingerprint = gan,
               diffusionMarkers = diffusion,
               description =
                 (if artifacts
                  then ''Detected AI artifacts: '' @ join '', '' types @ ''. ''
                       @ (if gan > diffusion then ''Pattern suggests GAN-based generation.''
                          else if diffusion > gan then ''Pattern suggests diffusion model generation.''
                          else [])
                  else ''No AI artifacts detected''),
               art_severity =
                 (if artifacts
                  then (if total \<ge> 60 then 85 else if total \<ge> 40 then 70 else if total \<ge> 25 then 55 else 40)
                  else 0) \<rparr>
      | Inl error \<Rightarrow>
          \<lparr> hasArtifacts = False, artifactTypes = [], ganFingerprint = 0, diffusionMarkers = 0,
            description = ''Analysis error'', art_severity = 0 \<rparr>)"

subsection \<open>Forensics analyzer: JPEG structure\<close>

record jpeg_scan =
  \<comment> \<open>the variables the marker loop updates and the analysis reads\<close>
  dqtCount :: nat
  quantTables :: "nat option list list"
  scanQuality :: real

definition byteAt :: "buffer \<Rightarrow> nat \<Rightarrow> nat option" where
  \<comment> \<open>\<open>buffer[i]\<close>: \<open>undefined\<close> out of range\<close>
  "byteAt buf i = (if i < length buf then Some (unat (buf ! i)) else None)"

definition qualityBand :: "nat option \<Rightarrow> real" where
  \<comment> \<open>a comparison with \<open>undefined\<close> is false\<close>
  "qualityBand firstVal =
     (case firstVal of
        None \<Rightarrow> 30
      | Some v \<Rightarrow>
          if v \<le> 2 then 95 else if v \<le> 5 then 90 else if v \<le> 10 then 80
          else if v \<le> 20 then 70 else if v \<le> 40 then 50 else 30)"

definition dqtStep :: "buffer \<Rightarrow> nat \<Rightarrow> nat \<Rightarrow> jpeg_scan \<Rightarrow> jpeg_scan" where
  \<comment> \<open>the branch \<open>marker === JPEG_DQT\<close>, with \<open>len\<close> the segment length read\<close>
  "dqtStep buf offset len sc =
     (let sc = sc\<lparr> dqtCount := dqtCount sc + 1 \<rparr>
      in if len \<ge> 67
         then
           let table = map (\<lambda>i. byteAt buf (offset + 5 + i)) [0..<64]
           in sc\<lparr> quantTables := quantTables sc @ [table], scanQuality := qualityBand (table ! 0) \<rparr>
         else sc)"

function jpegLoop :: "buffer \<Rightarrow> nat \<Rightarrow> jpeg_scan \<Rightarrow> js_error + jpeg_scan" where
  \<comment> \<open>the \<open>while (offset < buffer.length - 2)\<close> loop; reading a segment length past the
      end of the buffer throws\<close>
  "jpegLoop buf offset sc =
     (if offset + 2 < length buf then
        (case readUInt16BE buf offset of
           Inl e \<Rightarrow> Inl e
         | Inr marker \<Rightarrow>
             if marker = 0xFFDB then
               (case readUInt16BE buf (offset + 2) of
                  Inl e \<Rightarrow> Inl e
                | Inr len \<Rightarrow> jpegLoop buf (offset + 2 + len) (dqtStep buf offset len sc))
             else if marker = 0xFFC4 then
               (case readUInt16BE buf (offset + 2) of
                  Inl e \<Rightarrow> Inl e
                | Inr len \<Rightarrow> jpegLoop buf (offset + 2 + len) sc)
             else if marker = 0xFFC0 \<or> marker = 0xFFC2 then
               (case readUInt16BE buf (offset + 2) of
                  Inl e \<Rightarrow> Inl e
                | Inr len \<Rightarrow> jpegLoop buf (offset + 2 + len) sc)
             else if marker = 0xFFDA then Inr sc
             else if marker div 256 = 0xFF then
               (if offset + 3 < length buf
                then (case readUInt16BE buf (offset + 2) of
                        Inl e \<Rightarrow> Inl e
                      | Inr len \<Rightarrow> jpegLoop buf (offset + 2 + len) sc)
                else Inr sc)
             else jpegLoop buf (offset + 1) sc)
      else Inr sc)"
  by pat_completeness auto
termination
  by (relation "measure (\<lambda>(buf, offset, sc). length buf - offset)") auto

fun sumEntries :: "nat option list \<Rightarrow> nat option" where
  \<comment> \<open>\<open>reduce((a, b) => a + b, 0)\<close>: \<open>None\<close> is \<open>NaN\<close>, the sum over an \<open>undefined\<close> entry\<close>
  "sumEntries [] = Some 0"
| "sumEntries (x # xs) =
     (case (x, sumEntries xs) of (Some a, Some b) \<Rightarrow> Some (a + b) | _ \<Rightarrow> None)"

definition nearEqual :: "nat option \<times> nat option \<Rightarrow> bool" where
  \<comment> \<open>\<open>Math.abs(a - b) < 3\<close>\<close>
  "nearEqual p = (case p of (Some a, Some b) \<Rightarrow> \<bar>int a - int b\<bar> < 3 | _ \<Rightarrow> False)"

definition assessTables :: "jpeg_scan \<Rightarrow> CompressionAnalysis" where
  \<comment> \<open>"Analyze for inconsistencies" and the returned object\<close>
  "assessTables sc =
     (let tables = quantTables sc;
          multiple = (length tables > 2);
          blocks =
            (length tables > 0 \<and>
             (case (sumEntries (take 16 (drop 48 (tables ! 0))), sumEntries (take 16 (tables ! 0))) of
                (Some highFreqSum, Some lowFreqSum) \<Rightarrow> highFreqSum > lowFreqSum * 3
              | _ \<Rightarrow> False));
          ghosting =
            (length tables \<ge> 2 \<and>
             length (filter nearEqual (zip (tables ! 0) (tables ! 1))) > 50);
          inconsistent = (multiple \<or> blocks \<or> ghosting)
      in \<lparr> hasInconsistency = inconsistent,
           inconsistencyType =
             Some (if multiple then ''multiple_quantization_tables''
                   else if blocks then ''block_artifacts''
                   else if ghosting then ''double_compression''
                   else []),
           comp_hasStandardQuantization = (dqtCount sc \<ge> 2 \<and> scanQuality sc \<ge> 70),
           estimatedQuality = Some (scanQuality sc),
           blockArtifacts = blocks,
           ghostingDetected = ghosting,
           qualityMismatch = False,
           comp_severity =
             (if inconsistent
              then (if ghosting then 55 else if blocks then 45 else 40)
              else 0) \<rparr>)"

definition noInconsistency :: CompressionAnalysis where
  \<comment> \<open>the object returned when the file does not start with the SOI marker, and by the
      \<open>catch\<close> block\<close>
  "noInconsistency =
     \<lparr> hasInconsistency = False, inconsistencyType = None, comp_hasStandardQuantization = False,
       estimatedQuality = None, blockArtifacts = False, ghostingDetected = False,
       qualityMismatch = False, comp_severity = 0 \<rparr>"

definition jpegStructure :: "buffer \<Rightarrow> js_error + CompressionAnalysis" where
  \<comment> \<open>the \<open>try\<close> block of analyzeJPEGCompression\<close>
  "jpegStructure buf =
     (case readUInt16BE buf 0 of
        Inl e \<Rightarrow> Inl e
      | Inr soi \<Rightarrow>
          if soi \<noteq> 0xFFD8 then Inr noInconsistency
          else
            (case jpegLoop buf 2 \<lparr> dqtCount = 0, quantTables = [], scanQuality = 75 \<rparr> of
               Inl e \<Rightarrow> Inl e
             | Inr sc \<Rightarrow> Inr (assessTables sc)))"

definition analyzeJPEGCompression :: "buffer \<Rightarrow> CompressionAnalysis" where
  "analyzeJPEGCompression buf =
     (case jpegStructure buf of
        Inr r \<Rightarrow> r
      | Inl error \<Rightarrow> noInconsistency)"

subsection \<open>Forensics analyzer: screenshot heuristic, PNG scan and assembly\<close>

record ScreenshotResult =
  shot_isScreenshot :: bool
  shot_probability :: real

definition detectScreenshot :: "nat \<Rightarrow> nat \<Rightarrow> string option \<Rightarrow> string option \<Rightarrow> ScreenshotResult" where
  \<comment> \<open>with \<open>height = 0\<close> the aspect ratio is \<open>Infinity\<close> or \<open>NaN\<close> and matches no ratio\<close>
  "detectScreenshot width height cameraMake software_opt =
     (let isCommonRatio =
            (height \<noteq> 0 \<and>
             list_ex (\<lambda>r. \<bar>real width / real height - r\<bar> < 0.05) [16 / 9, 16 / 10, 4 / 3, 3 / 2, 25 / 16]);
          probability = (if isCommonRatio then 15 else 0);
          probability = probability
            + (if width \<in> set [1920, 2560, 3840, 1366, 1440, 1536, 2880, 5120] then 25 else 0);
          probability = probability
            + (if height \<in> set [1080, 1440, 2160, 768, 900, 864, 1200, 1800, 2880] then 25 else 0);
          probability = probability + (if \<not> truthy cameraMake then 15 else 0);
          probability = probability
            + (if truthy software_opt \<and>
                  (let lower = toLowerCase (the software_opt)
                   in includes_str lower ''screenshot'' \<or> includes_str lower ''capture''
                      \<or> includes_str lower ''grab'' \<or> includes_str lower ''snip'')
               then 35 else 0)
      in \<lparr> shot_isScreenshot = (probability \<ge> 55), shot_probability = min 100 probability \<rparr>)"

definition pngKeywords :: "string list" where
  \<comment> \<open>the list \<open>aiKeywords\<close> of analyzePNGSpecific\<close>
  "pngKeywords =
     [''stable diffusion'', ''midjourney'', ''dall-e'', ''dalle'', ''prompt'',
      ''negative prompt'', ''steps:'', ''cfg scale:'', ''sampler:'', ''seed:'',
      ''model:'', ''lora'', ''controlnet'', ''comfyui'', ''automatic1111'',
      ''parameters'', ''denoising'', ''hires fix'', ''upscale'', ''leonardo'',
      ''firefly'', ''adobe firefly'', ''ideogram'', ''playground'']"

definition pngChunkFinding :: "string \<times> string \<Rightarrow> Finding list" where
  \<comment> \<open>body of the loop over the chunk map: at most one finding per entry\<close>
  "pngChunkFinding entry =
     (case entry of (keyword, content) \<Rightarrow>
        if content = [] then []
        else if list_ex (\<lambda>aiKeyword. includes_str (toLowerCase content) aiKeyword) pngKeywords
        then [mkFinding Critical 90 CatForensics ''AI generation signature in PNG metadata'']
        else [])"

definition analyzePNGSpecific :: "(buffer \<Rightarrow> string) \<Rightarrow> buffer \<Rightarrow> js_error + Finding list" where
  \<comment> \<open>not wrapped in a \<open>try\<close>: an exception of parsePNGChunks propagates\<close>
  "analyzePNGSpecific utf8 buf =
     (case parsePNGChunks utf8 buf of
        Inl e \<Rightarrow> Inl e
      | Inr chunks \<Rightarrow>
          Inr (concat (map pngChunkFinding chunks)
               @ (if ''IHDR'' \<notin> set (map fst chunks)
                  then [mkFinding Warning 50 CatForensics ''PNG missing IHDR chunk'']
                  else [])))"

record image_info =
  \<comment> \<open>what the image library reports for the decoded buffer\<close>
  img_buffer :: buffer
  img_width :: nat
  img_height :: nat
  img_format :: "string option"

definition gradedFinding :: "bool \<Rightarrow> real \<Rightarrow> real \<Rightarrow> string \<Rightarrow> Finding list" where
  \<comment> \<open>the block \<open>if (flag) findings.push({type: severity > limit ? 'critical' : 'warning', ...})\<close>\<close>
  "gradedFinding flag sev limit msg =
     (if flag then [mkFinding (if sev > limit then Critical else Warning) sev CatForensics msg] else [])"

definition elaFindings :: "ELAAnalysis \<Rightarrow> Finding list" where
  "elaFindings r =
     gradedFinding (hasManipulation r) (ela_severity r) 70 ''Error Level Analysis detected manipulation''"

definition frequencyFindings :: "FrequencyAnalysis \<Rightarrow> Finding list" where
  "frequencyFindings r =
     gradedFinding (hasAnomalies r) (freq_severity r) 70 ''Frequency analysis detected AI generation patterns''"

definition textureFindings :: "TextureAnalysis \<Rightarrow> Finding list" where
  "textureFindings r =
     gradedFinding (isArtificial r) (tex_severity r) 70 ''Texture analysis detected synthetic patterns''"

definition compressionFindings :: "CompressionAnalysis option \<Rightarrow> Finding list" where
  "compressionFindings r =
     (case r of
        Some c \<Rightarrow>
          if hasInconsistency c
          then [mkFinding Warning (comp_severity c) CatForensics ''JPEG compression inconsistencies detected'']
          else []
      | None \<Rightarrow> [])"

definition artifactFindings :: "AIArtifactAnalysis \<Rightarrow> Finding list" where
  "artifactFindings r =
     gradedFinding (hasArtifacts r) (art_severity r) 75 ''AI generation artifacts detected''"

definition screenshotFindings :: "ScreenshotResult \<Rightarrow> Finding list" where
  "screenshotFindings r =
     (if shot_isScreenshot r then [mkFinding Warning 45 CatForensics ''Screenshot detected''] else [])"

definition exportFindings :: "string option \<Rightarrow> Finding list" where
  "exportFindings software_opt =
     (if truthy software_opt \<and> isExportTool (the software_opt)
      then [mkFinding Warning 40 CatForensics ''Export tool signature detected'']
      else [])"

definition forensicStatus :: "Finding list \<Rightarrow> analysis_status" where
  "forensicStatus findings =
     (if length (filter (\<lambda>f. ftype f = Critical) findings) > 0 then Failed
      else if length (filter (\<lambda>f. severity f \<ge> 50) findings) > 0 then WarningStatus
      else Passed)"

definition forensicsFailed :: ForensicsAnalysisResult where
  \<comment> \<open>the object returned by the \<open>catch\<close> block of analyzeForensics\<close>
  "forensicsFailed =
     \<lparr> fr_status = Failed,
       fr_findings = [mkFinding Critical 100 CatForensics ''Forensic analysis failed''],
       forensics = None, elaAnalysis = None, frequencyAnalysis = None, textureAnalysis = None,
       compressionAnalysis = None, aiArtifactAnalysis = None \<rparr>"

definition pngScan :: "(buffer \<Rightarrow> string) \<Rightarrow> image_info \<Rightarrow> js_error + Finding list" where
  \<comment> \<open>\<open>format === 'png' ? analyzePNGSpecific(buffer) : []\<close>\<close>
  "pngScan utf8 img =
     (if img_format img = Some ''png'' then analyzePNGSpecific utf8 (img_buffer img) else Inr [])"

definition analyzeForensics ::
  "(buffer \<Rightarrow> string) \<Rightarrow> js_error + image_info
   \<Rightarrow> js_error + ela_stats \<Rightarrow> js_error + freq_stats \<Rightarrow> js_error + texture_stats
   \<Rightarrow> js_error + artifact_stats \<Rightarrow> string option \<Rightarrow> string option \<Rightarrow> ForensicsAnalysisResult" where
  \<comment> \<open>\<open>decoded\<close> is the outcome of extractBase64 and of reading the image header; the four
      arguments after it are the outcomes of the measurements of the four raster analyses.\<close>
  "analyzeForensics utf8 decoded elaIn freqIn texIn artIn cameraMake software_opt =
     (case decoded of
        Inl e \<Rightarrow> forensicsFailed
      | Inr img \<Rightarrow>
          let elaRes = analyzeELA elaIn;
              frequencyRes = analyzeFrequencyDomain freqIn;
              textureRes = analyzeTexturePatterns texIn;
              compressionRes = (if img_format img = Some ''jpeg''
                                then Some (analyzeJPEGCompression (img_buffer img)) else None);
              aiArtifactRes = detectAIArtifacts artIn;
              screenshotRes = detectScreenshot (img_width img) (img_height img) cameraMake software_opt
          in case pngScan utf8 img of
               Inl e \<Rightarrow> forensicsFailed
             | Inr pngResult \<Rightarrow>
                 let findings = elaFindings elaRes @ frequencyFindings frequencyRes
                                @ textureFindings textureRes @ compressionFindings compressionRes
                                @ artifactFindings aiArtifactRes @ screenshotFindings screenshotRes
                                @ exportFindings software_opt @ pngResult
                 in \<lparr> fr_status = forensicStatus findings,
                      fr_findings = findings,
                      forensics = Some
                        \<lparr> isScreenshot = shot_isScreenshot screenshotRes,
                          screenshotProbability = shot_probability screenshotRes,
                          exportToolDetected =
                            (if truthy software_opt \<and> isExportTool (the software_opt)
                             then software_opt else None),
                          hasStandardQuantization = optFlag compressionRes comp_hasStandardQuantization,
                          quantizationQuality = (case compressionRes of Some c \<Rightarrow> estimatedQuality c | None \<Rightarrow> None),
                          thumbnailConsistent = True,
                          fileFormatValid = True \<rparr>,
                      elaAnalysis = Some elaRes,
                      frequencyAnalysis = Some frequencyRes,
                      textureAnalysis = Some textureRes,
                      compressionAnalysis = compressionRes,
                      aiArtifactAnalysis = Some aiArtifactRes \<rparr>)"

subsection \<open>The AI-likelihood rule, as a list of counted signals\<close>







subsection \<open>Sample analysis results\<close>

definition sampleMetadata :: MetadataAnalysisResult where
  \<comment> \<open>a metadata result with no finding and no signature\<close>
  "sampleMetadata =
     \<lparr> md_status = Passed, md_findings = [], cameraInfo = None, timestamps = None,
       aiSignatures = Some [], gpsInfo = None, hasEXIF = False, hasGPS = False \<rparr>"

definition sampleFrequency :: "bool \<Rightarrow> real \<Rightarrow> FrequencyAnalysis" where
  "sampleFrequency flag sev =
     \<lparr> hasAnomalies = flag, anomalyType = ''grid_artifacts'', spectralEnergy = 10,
       gridArtifacts = flag, periodicPatterns = False, freq_severity = sev \<rparr>"

definition sampleTexture :: "bool \<Rightarrow> real \<Rightarrow> TextureAnalysis" where
  "sampleTexture flag sev =
     \<lparr> naturalness = 50, repetitionScore = 0, microPatternScore = 0, textureRichness = 0.5,
       isArtificial = flag, tex_severity = sev \<rparr>"

definition sampleForensics :: "ELAAnalysis \<Rightarrow> FrequencyAnalysis \<Rightarrow> TextureAnalysis \<Rightarrow> ForensicsAnalysisResult" where
  \<comment> \<open>a forensics result with the three given sub-results and no finding\<close>
  "sampleForensics e q t =
     \<lparr> fr_status = Passed, fr_findings = [], forensics = None,
       elaAnalysis = Some e, frequencyAnalysis = Some q, textureAnalysis = Some t,
       compressionAnalysis = None, aiArtifactAnalysis = None \<rparr>"

definition sampleSignature :: "real \<Rightarrow> AISignature" where
  "sampleSignature c =
     \<lparr> tool = Some ''Unknown PNG-based AI tool'', toolType = Some ''diffusion'', sig_confidence = c,
       sig_evidence = ''PNG parameters chunk contains: steps:'' \<rparr>"

definition samplePNG :: buffer where
  \<comment> \<open>a 1x1 PNG file: signature, IHDR, a tEXt chunk with keyword "parameters" and text
      "Steps: 20, Sampler: Euler", IDAT, IEND\<close>
  "samplePNG =
     [0x89, 0x50, 0x4E, 0x47, 0x0D, 0x0A, 0x1A, 0x0A, 0x00, 0x00, 0x00, 0x0D, 0x49, 0x48, 0x44,
      0x52, 0x00, 0x00, 0x00, 0x01, 0x00, 0x00, 0x00, 0x01, 0x08, 0x02, 0x00, 0x00, 0x00, 0x90,
      0x77, 0x53, 0xDE, 0x00, 0x00, 0x00, 0x24, 0x74, 0x45, 0x58, 0x74, 0x70, 0x61, 0x72, 0x61,
      0x6D, 0x65, 0x74, 0x65, 0x72, 0x73, 0x00, 0x53, 0x74, 0x65, 0x70, 0x73, 0x3A, 0x20, 0x32,
      0x30, 0x2C, 0x20, 0x53, 0x61, 0x6D, 0x70, 0x6C, 0x65, 0x72, 0x3A, 0x20, 0x45, 0x75, 0x6C,
      0x65, 0x72, 0xC6, 0x3A, 0x84, 0xD3, 0x00, 0x00, 0x00, 0x0C, 0x49, 0x44, 0x41, 0x54, 0x78,
      0x9C, 0x63, 0xF8, 0xCF, 0xC0, 0x00, 0x00, 0x03, 0x01, 0x01, 0x00, 0xC9, 0xFE, 0x92, 0xEF,
      0x00, 0x00, 0x00, 0x00, 0x49, 0x45, 0x4E, 0x44, 0xAE, 0x42, 0x60, 0x82]"

definition samplePNGDataURL :: string where
  \<comment> \<open>the data URL of \<open>samplePNG\<close>\<close>
  "samplePNGDataURL =
     ''data:image/png;base64,'' @
     ''iVBORw0KGgoAAAANSUhEUgAAAAEAAAABCAIAAACQd1PeAAAAJHRFWHRwYXJhbWV0ZXJzAFN0ZXBzOiAyMCwgU2FtcGxlcjogRXVsZXLGOoTTAAAADElEQVR4nGP4z8AAAAMBAQDJ/pLvAAAAAElFTkSuQmCC''"

definition sampleJPEGDataURL :: string where
  \<comment> \<open>the beginning of the data URL of a JPEG file\<close>
  "sampleJPEGDataURL = ''data:image/jpeg;base64,/9j/4AAQSkZJRgABAQ''"

definition sampleExif :: "string \<Rightarrow> ExifData" where
  \<comment> \<open>the EXIF tags of a JPEG file that carries a Software tag and nothing else\<close>
  "sampleExif sw =
     \<lparr> exif_make = None, exif_model = None, exif_software = Some sw, exif_lensModel = None,
       exif_orientation = None, exif_xResolution = None, exif_yResolution = None,
       gps_latitude = None, gps_longitude = None, gps_latitudeRef = None, gps_longitudeRef = None,
       gps_altitude = None, exif_dateTimeOriginal = None, exif_dateTimeDigitized = None,
       exif_dateTime = None, gps_dateStamp = None, gps_timeStamp = None \<rparr>"

definition truncatedJPEG :: image_info where
  \<comment> \<open>a JPEG file cut off inside its first quantization-table segment\<close>
  "truncatedJPEG =
     \<lparr> img_buffer = [0xFF, 0xD8, 0xFF, 0xDB, 0x00], img_width = 640, img_height = 480,
       img_format = Some ''jpeg'' \<rparr>"

section \<open>Verified properties\<close>

subsection \<open>Rounding and clamping\<close>

lemma js_round_bounds: "0 \<le> x \<Longrightarrow> x \<le> 100 \<Longrightarrow> 0 \<le> js_round x \<and> js_round x \<le> 100"
  unfolding js_round_def by (simp add: floor_le_iff le_floor_iff; linarith)

lemma js_round_mono: "x \<le> y \<Longrightarrow> js_round x \<le> js_round y"
  unfolding js_round_def by (simp add: floor_mono)

lemma js_round_of_int: "js_round (of_int n) = of_int n"
  unfolding js_round_def by (simp; linarith)

lemma js_round_numeral: "js_round (numeral n) = numeral n"
  using js_round_of_int [of "numeral n"] by simp

lemma calculateConfidence_bounds:
  "0 \<le> calculateConfidence b p n \<and> calculateConfidence b p n \<le> 100"
  by (simp add: calculateConfidence_def Let_def)

lemma calculateRiskScore_bounds: "0 \<le> calculateRiskScore m f \<and> calculateRiskScore m f \<le> 100"
  unfolding calculateRiskScore_def by (simp only: Let_def) simp

lemma adjustedConfidence_le: "adjustedConfidence a \<le> 100"
  by (simp add: adjustedConfidence_def)

lemma ai_confidence_eq:
  "ai_confidence (detectAIGeneration m f) = js_round (adjustedConfidence (aiAccumulate m f))"
  by (simp add: detectAIGeneration_def Let_def)

lemma ai_confidence_le: "ai_confidence (detectAIGeneration m f) \<le> 100"
  using js_round_mono [OF adjustedConfidence_le, of "aiAccumulate m f"]
  by (simp add: ai_confidence_eq js_round_numeral)

subsection \<open>The accumulators of detectAIGeneration\<close>











subsection \<open>Evaluation on the sample results\<close>

lemmas sample_defs = sampleMetadata_def sampleForensics_def sampleFrequency_def sampleTexture_def
  sampleSignature_def elaResult_def elaSeverity_def

lemmas step_defs = aiAccumulate_def stepSignatures_def stepELA_def stepFrequency_def stepTexture_def
  stepArtifacts_def stepCompression_def countMethod_def addSignature_def

lemmas confidence_defs = adjustedConfidence_def weightedConfidence_def multiplier_def hasSignatures_def


lemma sample_two_methods:
  "aiAccumulate sampleMetadata
     (sampleForensics (elaResult 5 4 40 7 6) (sampleFrequency True s) (sampleTexture True s))
   = \<lparr> totalScore = s + s, methodCount = 2,
       acc_methods = [''frequency_analysis'', ''texture_analysis''],
       acc_indicators = [SpectralAnomaly ''grid_artifacts'', TextureNaturalness 50] \<rparr>"
  by (simp add: sample_defs step_defs)


lemma sample_detect_69:
  "isLikelyAI (detectAIGeneration sampleMetadata
       (sampleForensics (elaResult 5 4 40 7 6) (sampleFrequency True 69) (sampleTexture True 69)))
   \<and> ai_confidence (detectAIGeneration sampleMetadata
       (sampleForensics (elaResult 5 4 40 7 6) (sampleFrequency True 69) (sampleTexture True 69))) = 80"
  unfolding detectAIGeneration_def sample_two_methods Let_def
  by (simp add: confidence_defs js_round_def)

subsection \<open>Scoring engine\<close>

lemma critical_some:
  "(length (filter P xs) > 0 \<and> list_ex Q (filter P xs)) = (\<exists>x\<in>set xs. P x \<and> Q x)"
  by (auto simp: list_ex_iff filter_empty_conv)

lemma scoreResults_status:
  "status (scoreResults m f) =
     fst (finalStatus m (filter (\<lambda>x. ftype x = Critical) (md_findings m @ fr_findings f))
            (calculateRiskScore m f) (detectAIGeneration m f))"
  by (simp add: scoreResults_def Let_def)

lemma scoreResults_confidence:
  "confidence (scoreResults m f) =
     js_round (snd (finalStatus m (filter (\<lambda>x. ftype x = Critical) (md_findings m @ fr_findings f))
                      (calculateRiskScore m f) (detectAIGeneration m f)))"
  by (simp add: scoreResults_def Let_def)

lemma scoreResults_riskScore: "riskScore (scoreResults m f) = js_round (calculateRiskScore m f)"
  by (simp add: scoreResults_def Let_def)

lemma finalStatus_confidence_bounds:
  "ai_confidence ai \<le> 100 \<Longrightarrow>
   0 \<le> snd (finalStatus m cf r ai) \<and> snd (finalStatus m cf r ai) \<le> 100"
  unfolding finalStatus_def using calculateConfidence_bounds
  by (simp only: if_distrib [of snd] snd_conv) auto

text \<open>
  C1. The final verdict is computed in strict priority order: REJECTED if isLikelyAI holds
  and the AI-detection confidence is at least 75, whatever the risk score; else REJECTED if
  a critical Finding of category ai-signature is present among the findings of the two
  analyzers; else RISKY if the risk score is at least 70; else RISKY if the risk score is at
  least 45 or (isLikelyAI and the AI-detection confidence is at least 50); else VERIFIED.
  In particular isLikelyAI with confidence 80 gives REJECTED. The risk score compared is the
  clamped value of calculateRiskScore, and the AI-detection confidence is the rounded value
  that detectAIGeneration reports.
\<close>

theorem verdict_priority_order:
  "status (scoreResults m f) =
     (if isLikelyAI (detectAIGeneration m f) \<and> ai_confidence (detectAIGeneration m f) \<ge> 75
        then REJECTED
      else if (\<exists>x \<in> set (md_findings m @ fr_findings f). ftype x = Critical \<and> category x = CatAiSignature)
        then REJECTED
      else if calculateRiskScore m f \<ge> 70 then RISKY
      else if calculateRiskScore m f \<ge> 45
              \<or> (isLikelyAI (detectAIGeneration m f) \<and> ai_confidence (detectAIGeneration m f) \<ge> 50)
        then RISKY
      else VERIFIED)
   \<and> (isLikelyAI (detectAIGeneration m f) \<and> ai_confidence (detectAIGeneration m f) = 80
        \<longrightarrow> status (scoreResults m f) = REJECTED)"
  unfolding scoreResults_status finalStatus_def critical_some
  by (simp only: if_distrib [of fst] fst_conv) simp

theorem verdict_priority_order_witness:
  "isLikelyAI (detectAIGeneration sampleMetadata
       (sampleForensics (elaResult 5 4 40 7 6) (sampleFrequency True 69) (sampleTexture True 69)))
   \<and> ai_confidence (detectAIGeneration sampleMetadata
       (sampleForensics (elaResult 5 4 40 7 6) (sampleFrequency True 69) (sampleTexture True 69))) = 80
   \<and> status (scoreResults sampleMetadata
       (sampleForensics (elaResult 5 4 40 7 6) (sampleFrequency True 69) (sampleTexture True 69))) = REJECTED"
  using verdict_priority_order [of sampleMetadata
      "sampleForensics (elaResult 5 4 40 7 6) (sampleFrequency True 69) (sampleTexture True 69)"]
    sample_detect_69
  by simp




text \<open>
  C10. For every pair of metadata and forensics results, the VerificationResult returned by
  the scoring engine has riskScore within [0,100] and confidence within [0,100].
\<close>

theorem result_scores_in_range:
  "0 \<le> riskScore (scoreResults m f) \<and> riskScore (scoreResults m f) \<le> 100
   \<and> 0 \<le> confidence (scoreResults m f) \<and> confidence (scoreResults m f) \<le> 100"
  unfolding scoreResults_riskScore scoreResults_confidence
  using js_round_bounds calculateRiskScore_bounds finalStatus_confidence_bounds [OF ai_confidence_le]
  by blast

theorem result_scores_in_range_witness:
  "0 \<le> riskScore (scoreResults sampleMetadata
          (sampleForensics (elaResult 16 4 40 7 6) (sampleFrequency True 80) (sampleTexture True 75)))
   \<and> riskScore (scoreResults sampleMetadata
          (sampleForensics (elaResult 16 4 40 7 6) (sampleFrequency True 80) (sampleTexture True 75))) \<le> 100
   \<and> 0 \<le> confidence (scoreResults sampleMetadata
          (sampleForensics (elaResult 16 4 40 7 6) (sampleFrequency True 80) (sampleTexture True 75)))
   \<and> confidence (scoreResults sampleMetadata
          (sampleForensics (elaResult 16 4 40 7 6) (sampleFrequency True 80) (sampleTexture True 75))) \<le> 100"
  using result_scores_in_range [of sampleMetadata
      "sampleForensics (elaResult 16 4 40 7 6) (sampleFrequency True 80) (sampleTexture True 75)"]
  by simp

subsection \<open>Metadata analyzer: the Software tag\<close>

lemma detect_screenshot:
  "detectAITool ''Screenshot'' =
     \<lparr> detected = True, det_tool = Some ''Screenshot'', det_type = Some ''export tools'',
       det_confidence = Some 30 \<rparr>"
  by code_simp

lemma export_screenshot: "isExportTool ''Screenshot'' = True"
  by code_simp

lemma detect_gimp:
  "detectAITool ''GIMP 2.10'' =
     \<lparr> detected = True, det_tool = Some ''GIMP 2.10'', det_type = Some ''editing'',
       det_confidence = Some 40 \<rparr>"
  by code_simp

lemma detect_marker:
  "detectAITool ''AI-generated'' =
     \<lparr> detected = True, det_tool = Some ''AI-generated'', det_type = Some ''ai markers'',
       det_confidence = Some 90 \<rparr>"
  by code_simp

lemma scanSoftware_signatures:
  "st_aiSignatures (scanSoftware sw st) =
     st_aiSignatures st @
     (if detected (detectAITool sw)
      then [\<lparr> tool = det_tool (detectAITool sw), toolType = det_type (detectAITool sw),
              sig_confidence = 95,
              sig_evidence = ''Software field contains: '' @ [CHR 0x22] @ sw @ [CHR 0x22] \<rparr>]
      else [])"
  by (simp add: scanSoftware_def Let_def)

lemma sample_jpeg_url: "isImageJPEG sampleJPEGDataURL"
  by code_simp

lemma sample_exif_timestamps:
  "inconsistencies (analyzeTimestamps getTime now (sampleExif sw)) = []"
  by (simp add: analyzeTimestamps_def sampleExif_def parseOptional_def Let_def)

lemma sample_exif_software: "exif_software (sampleExif sw) = Some sw"
  by (simp add: sampleExif_def)

lemma analyzeJPEG_screenshot:
  "analyzeJPEG getTime now (Inr (sampleExif ''Screenshot'')) initialState =
     \<lparr> st_findings =
         [mkFinding Critical 100 CatAiSignature ''AI generation software detected: Screenshot'',
          mkFinding Warning 50 CatMetadata ''Export tool detected'',
          mkFinding Warning 40 CatMetadata ''Missing camera manufacturer information'',
          mkFinding Warning 30 CatMetadata ''Missing GPS location data''],
       st_aiSignatures =
         [\<lparr> tool = Some ''Screenshot'', toolType = Some ''export tools'', sig_confidence = 95,
            sig_evidence = ''Software field contains: '' @ [CHR 0x22] @ ''Screenshot'' @ [CHR 0x22] \<rparr>],
       st_cameraInfo = Some
         \<lparr> cam_make = None, cam_model = None, software = Some ''Screenshot'', lensModel = None,
           orientation = None, xResolution = None, yResolution = None \<rparr>,
       st_gpsInfo = None, st_timestamps = None, st_hasEXIF = True, st_hasGPS = False \<rparr>"
  unfolding analyzeJPEG_def
  apply (simp only: sum.case Let_def sample_exif_timestamps sample_exif_software)
  apply (simp add: truthy_def scanSoftware_def detect_screenshot export_screenshot Let_def initialState_def)
  apply (simp add: sampleExif_def)
  done

lemma analyzeMetadata_screenshot:
  "analyzeMetadata utf8 getTime now sampleJPEGDataURL (Inr buf) (Inr (sampleExif ''Screenshot'')) =
     \<lparr> md_status = Failed,
       md_findings =
         [mkFinding Critical 100 CatAiSignature ''AI generation software detected: Screenshot'',
          mkFinding Warning 50 CatMetadata ''Export tool detected'',
          mkFinding Warning 40 CatMetadata ''Missing camera manufacturer information'',
          mkFinding Warning 30 CatMetadata ''Missing GPS location data''],
       cameraInfo = Some
         \<lparr> cam_make = None, cam_model = None, software = Some ''Screenshot'', lensModel = None,
           orientation = None, xResolution = None, yResolution = None \<rparr>,
       timestamps = None,
       aiSignatures = Some
         [\<lparr> tool = Some ''Screenshot'', toolType = Some ''export tools'', sig_confidence = 95,
            sig_evidence = ''Software field contains: '' @ [CHR 0x22] @ ''Screenshot'' @ [CHR 0x22] \<rparr>],
       gpsInfo = None, hasEXIF = True, hasGPS = False \<rparr>"
  apply (simp only: analyzeMetadata_def sum.case sample_jpeg_url if_True)
  apply (subst analyzeJPEG_screenshot)
  apply (simp add: overallStatus_def mkFinding_def Let_def)
  done

text \<open>
  C3. The code departs from the claim on a Software string that matches only the
  export/screenshot category. For a JPEG whose Software tag is "Screenshot" (no keyword of
  the diffusion, generative, editing or AI-marker lists occurs in it), detectAITool reports a
  detection of type "export tools", and analyzeMetadata emits a critical ai-signature
  Finding of severity 100 and an AISignature record before the warning of severity 50; the
  result status is failed.
\<close>

theorem export_tool_reported_as_ai_signature:
  "\<not> list_ex (\<lambda>t. includes_str (toLowerCase ''Screenshot'') t) (DIFFUSION @ GENERATIVE @ EDITING @ AI_MARKERS)
   \<and> list_ex (\<lambda>t. includes_str (toLowerCase ''Screenshot'') t) EXPORT_TOOLS
   \<and> det_type (detectAITool ''Screenshot'') = Some ''export tools''
   \<and> md_findings (analyzeMetadata utf8 getTime now sampleJPEGDataURL (Inr buf)
                      (Inr (sampleExif ''Screenshot''))) =
         [mkFinding Critical 100 CatAiSignature ''AI generation software detected: Screenshot'',
          mkFinding Warning 50 CatMetadata ''Export tool detected'',
          mkFinding Warning 40 CatMetadata ''Missing camera manufacturer information'',
          mkFinding Warning 30 CatMetadata ''Missing GPS location data'']
   \<and> aiSignatures (analyzeMetadata utf8 getTime now sampleJPEGDataURL (Inr buf)
                       (Inr (sampleExif ''Screenshot''))) =
         Some [\<lparr> tool = Some ''Screenshot'', toolType = Some ''export tools'', sig_confidence = 95,
                  sig_evidence = ''Software field contains: '' @ [CHR 0x22] @ ''Screenshot'' @ [CHR 0x22] \<rparr>]
   \<and> md_status (analyzeMetadata utf8 getTime now sampleJPEGDataURL (Inr buf)
                    (Inr (sampleExif ''Screenshot''))) = Failed"
proof -
  have a: "\<not> list_ex (\<lambda>t. includes_str (toLowerCase ''Screenshot'') t) (DIFFUSION @ GENERATIVE @ EDITING @ AI_MARKERS)"
    by code_simp
  have b: "list_ex (\<lambda>t. includes_str (toLowerCase ''Screenshot'') t) EXPORT_TOOLS"
    by code_simp
  show ?thesis
    unfolding analyzeMetadata_screenshot using a b by (simp add: detect_screenshot)
qed

text \<open>
  C4. The code departs from the claim: the confidence computed per category by detectAITool
  is not the confidence of the AISignature record. Every AISignature that the Software scan
  emits has confidence 95, whatever the string; for "GIMP 2.10" (editing, 40),
  "AI-generated" (generic AI marker, 90) and "Screenshot" (export tool, 30) the record
  carries 95.
\<close>

theorem signature_confidence_ignores_category:
  "map sig_confidence (st_aiSignatures (scanSoftware sw initialState)) =
     (if detected (detectAITool sw) then [95] else [])
   \<and> det_confidence (detectAITool ''GIMP 2.10'') = Some 40
   \<and> map sig_confidence (st_aiSignatures (scanSoftware ''GIMP 2.10'' initialState)) = [95]
   \<and> det_confidence (detectAITool ''AI-generated'') = Some 90
   \<and> map sig_confidence (st_aiSignatures (scanSoftware ''AI-generated'' initialState)) = [95]
   \<and> det_confidence (detectAITool ''Screenshot'') = Some 30
   \<and> map sig_confidence (st_aiSignatures (scanSoftware ''Screenshot'' initialState)) = [95]"
  by (simp add: scanSoftware_signatures initialState_def detect_gimp detect_marker detect_screenshot)

subsection \<open>Metadata analyzer: PNG text chunks\<close>

lemma sample_png_chunks:
  "parsePNGChunks utf8 samplePNG =
     Inr [(''parameters'', ''Steps: 20, Sampler: Euler''), (''tEXt'', ''Steps: 20, Sampler: Euler'')]"
  by code_simp

lemma sample_png_c2pa: "hasC2PAMetadata samplePNG = Inr False"
  by code_simp

lemma sample_png_url: "isImageJPEG samplePNGDataURL = False"
  by code_simp

lemma sample_png_keyword:
  "find (\<lambda>aiKeyword. includes_str (toLowerCase ''Steps: 20, Sampler: Euler'') aiKeyword)
     PNG_AI_CHUNK_KEYWORDS = Some ''steps:''"
  by code_simp

lemma scanChunk_sample:
  "scanChunk (kw, ''Steps: 20, Sampler: Euler'') st =
     st\<lparr> st_findings := st_findings st @
            [mkFinding Critical 100 CatAiSignature ''AI generation parameters detected in PNG chunks''],
          st_aiSignatures := st_aiSignatures st @
            [\<lparr> tool = Some ''Unknown PNG-based AI tool'', toolType = Some ''diffusion'',
               sig_confidence = 90,
               sig_evidence = ''PNG '' @ kw @ '' chunk contains: steps:'' \<rparr>] \<rparr>"
  unfolding scanChunk_def by (simp add: sample_png_keyword Let_def)

lemma analyzePNG_sample:
  "analyzePNG utf8 samplePNG initialState = Inr
     \<lparr> st_findings =
         [mkFinding Info 15 CatMetadata ''PNG format - limited EXIF support'',
          mkFinding Critical 100 CatAiSignature ''AI generation parameters detected in PNG chunks'',
          mkFinding Critical 100 CatAiSignature ''AI generation parameters detected in PNG chunks'',
          mkFinding Warning 35 CatMetadata ''No EXIF metadata found''],
       st_aiSignatures =
         [\<lparr> tool = Some ''Unknown PNG-based AI tool'', toolType = Some ''diffusion'',
            sig_confidence = 90, sig_evidence = ''PNG parameters chunk contains: steps:'' \<rparr>,
          \<lparr> tool = Some ''Unknown PNG-based AI tool'', toolType = Some ''diffusion'',
            sig_confidence = 90, sig_evidence = ''PNG tEXt chunk contains: steps:'' \<rparr>],
       st_cameraInfo = None, st_gpsInfo = None, st_timestamps = None,
       st_hasEXIF = False, st_hasGPS = False \<rparr>"
  unfolding analyzePNG_def sample_png_chunks sample_png_c2pa
  by (simp add: scanChunk_sample initialState_def Let_def)

lemma analyzeMetadata_sample_png:
  "analyzeMetadata utf8 getTime now samplePNGDataURL (Inr samplePNG) loaded =
     \<lparr> md_status = Failed,
       md_findings =
         [mkFinding Info 15 CatMetadata ''PNG format - limited EXIF support'',
          mkFinding Critical 100 CatAiSignature ''AI generation parameters detected in PNG chunks'',
          mkFinding Critical 100 CatAiSignature ''AI generation parameters detected in PNG chunks'',
          mkFinding Warning 35 CatMetadata ''No EXIF metadata found''],
       cameraInfo = None, timestamps = None,
       aiSignatures = Some
         [\<lparr> tool = Some ''Unknown PNG-based AI tool'', toolType = Some ''diffusion'',
            sig_confidence = 90, sig_evidence = ''PNG parameters chunk contains: steps:'' \<rparr>,
          \<lparr> tool = Some ''Unknown PNG-based AI tool'', toolType = Some ''diffusion'',
            sig_confidence = 90, sig_evidence = ''PNG tEXt chunk contains: steps:'' \<rparr>],
       gpsInfo = None, hasEXIF = False, hasGPS = False \<rparr>"
  apply (simp only: analyzeMetadata_def sample_png_url sum.case if_False)
  apply (subst analyzePNG_sample)
  apply (simp add: overallStatus_def mkFinding_def Let_def)
  done

text \<open>
  C5. The code departs from the claim on the number of findings. For the PNG file
  \<open>samplePNG\<close>, whose only text chunk is a tEXt chunk keyed "parameters" with the text
  "Steps: 20, Sampler: Euler", parsePNGChunks records the text twice, under the key
  "parameters" and under the key "tEXt"; analyzeMetadata then produces two critical Findings
  with the message "AI generation parameters detected in PNG chunks" and two AISignature
  records. The result status is failed.
\<close>

theorem png_parameters_chunk_reported_twice:
  "parsePNGChunks utf8 samplePNG =
     Inr [(''parameters'', ''Steps: 20, Sampler: Euler''), (''tEXt'', ''Steps: 20, Sampler: Euler'')]
   \<and> length (filter (\<lambda>f. ftype f = Critical
                          \<and> message f = ''AI generation parameters detected in PNG chunks'')
               (md_findings (analyzeMetadata utf8 getTime now samplePNGDataURL (Inr samplePNG) loaded))) = 2
   \<and> map sig_evidence
        (the (aiSignatures (analyzeMetadata utf8 getTime now samplePNGDataURL (Inr samplePNG) loaded))) =
       [''PNG parameters chunk contains: steps:'', ''PNG tEXt chunk contains: steps:'']
   \<and> md_status (analyzeMetadata utf8 getTime now samplePNGDataURL (Inr samplePNG) loaded) = Failed"
  unfolding analyzeMetadata_sample_png sample_png_chunks
  by (simp add: mkFinding_def)

subsection \<open>Metadata analyzer: GPS coordinates\<close>

lemma round_even_close: "\<bar>of_int (round_even w) - w\<bar> \<le> 1 / 2"
  unfolding round_even_def Let_def by (auto simp: abs_le_iff; linarith)

lemma round_even_nearest:
  assumes "\<bar>w - of_int r\<bar> < 1 / 2"
  shows "round_even w = r"
proof -
  have c: "\<bar>of_int (round_even w) - w\<bar> \<le> 1 / 2" by (rule round_even_close)
  have "\<bar>(of_int (round_even w) :: real) - of_int r\<bar> < 1" using assms c by linarith
  then have "\<bar>round_even w - r\<bar> < 1"
    by (metis (no_types, opaque_lifting) of_int_1 of_int_abs of_int_diff of_int_less_iff)
  then show ?thesis by linarith
qed

lemma binade_bounds:
  assumes "z \<noteq> 0"
  shows "2 powi (binade z) \<le> \<bar>z\<bar>" and "\<bar>z\<bar> < 2 powi (binade z + 1)"
proof -
  have pos: "0 < \<bar>z\<bar>" using assms by simp
  have "of_int (binade z) \<le> log 2 \<bar>z\<bar>" unfolding binade_def by linarith
  then have "2 powr (of_int (binade z)) \<le> \<bar>z\<bar>"
    using pos by (simp add: le_log_iff)
  then show "2 powi (binade z) \<le> \<bar>z\<bar>" by (simp add: powr_real_of_int')
  have "log 2 \<bar>z\<bar> < of_int (binade z + 1)" unfolding binade_def by linarith
  then have "\<bar>z\<bar> < 2 powr (of_int (binade z + 1))"
    using pos by (simp add: log_less_iff)
  moreover have "(2::real) powr (of_int (binade z + 1)) = 2 powi (binade z + 1)"
    using powr_real_of_int' [of "2::real" "binade z + 1"] by simp
  ultimately show "\<bar>z\<bar> < 2 powi (binade z + 1)" by simp
qed

lemma binade_unique:
  assumes "2 powi e \<le> \<bar>z\<bar>" and "\<bar>z\<bar> < 2 powi (e + 1)"
  shows "binade z = e"
proof -
  have "0 < (2::real) powi e" by (simp add: zero_less_power_int)
  then have pos: "0 < \<bar>z\<bar>" using assms(1) by linarith
  have "2 powr (of_int e) \<le> \<bar>z\<bar>" using assms(1) by (simp add: powr_real_of_int')
  then have a: "of_int e \<le> log 2 \<bar>z\<bar>" using pos by (simp add: le_log_iff)
  have "(2::real) powr (of_int (e + 1)) = 2 powi (e + 1)"
    using powr_real_of_int' [of "2::real" "e + 1"] by simp
  then have "\<bar>z\<bar> < 2 powr (of_int (e + 1))" using assms(2) by simp
  then have b: "log 2 \<bar>z\<bar> < of_int (e + 1)" using pos by (simp add: log_less_iff)
  show ?thesis unfolding binade_def using a b by linarith
qed

lemma fl_error: "\<bar>fl z - z\<bar> \<le> \<bar>z\<bar> / 2 ^ 53"
proof (cases "z = 0")
  case True then show ?thesis by (simp add: fl_def)
next
  case False
  define q :: real where "q = 2 powi (binade z - 52)"
  have qpos: "0 < q" unfolding q_def by (simp add: zero_less_power_int)
  have "fl z = of_int (round_even (z / q)) * q" using False by (simp add: fl_def q_def)
  then have "fl z - z = (of_int (round_even (z / q)) - z / q) * q"
    using qpos by (simp add: field_simps)
  then have "\<bar>fl z - z\<bar> = \<bar>of_int (round_even (z / q)) - z / q\<bar> * q"
    using qpos by (simp add: abs_mult)
  also have "\<dots> \<le> (1 / 2) * q"
    using round_even_close [of "z / q"] qpos by (simp add: mult_right_mono)
  also have "(1 / 2) * q = 2 powi (binade z) / 2 ^ 53"
    unfolding q_def by (simp add: power_int_diff)
  also have "\<dots> \<le> \<bar>z\<bar> / 2 ^ 53"
    using binade_bounds(1) [OF False] by (simp add: divide_right_mono)
  finally show ?thesis .
qed

lemma fl_close:
  assumes "\<bar>z\<bar> \<le> B"
  shows "\<bar>fl z - z\<bar> \<le> B / 2 ^ 53"
proof -
  have "\<bar>z\<bar> / 2 ^ 53 \<le> B / 2 ^ 53" using assms by (simp add: divide_right_mono)
  then show ?thesis using fl_error [of z] by linarith
qed

lemma fl_nearest:
  assumes "2 ^ 52 \<le> \<bar>z\<bar> * 2 ^ k" and "\<bar>z\<bar> * 2 ^ k < 2 ^ 53"
    and "\<bar>z * 2 ^ k - of_int r\<bar> < 1 / 2"
  shows "fl z = of_int r / 2 ^ k"
proof -
  have z: "z \<noteq> 0" using assms(1) by auto
  have p: "(2::real) powi (52 - int k) = 2 ^ 52 / 2 ^ k"
    by (simp add: power_int_diff)
  have p1: "(2::real) powi (52 - int k + 1) = 2 ^ 53 / 2 ^ k"
    by (simp add: power_int_diff power_int_add)
  have b: "binade z = 52 - int k"
  proof (rule binade_unique)
    show "2 powi (52 - int k) \<le> \<bar>z\<bar>" unfolding p using assms(1) by (simp add: field_simps)
    show "\<bar>z\<bar> < 2 powi (52 - int k + 1)" unfolding p1 using assms(2) by (simp add: field_simps)
  qed
  have q: "(2::real) powi (binade z - 52) = 1 / 2 ^ k"
    unfolding b by (simp add: power_int_minus field_simps)
  have "round_even (z / (1 / 2 ^ k)) = r"
    by (rule round_even_nearest) (use assms(3) in simp)
  then show ?thesis using z by (simp add: fl_def q)
qed

lemma double_sum_close:
  assumes "\<bar>D\<bar> \<le> 1000" and "\<bar>M\<bar> \<le> 1000" and "\<bar>S\<bar> \<le> 1000"
  shows "\<bar>fl (fl (fl D + fl (fl M / 60)) + fl (fl S / 3600)) - (D + M / 60 + S / 3600)\<bar>
           \<le> 1 / 1000000000000
         \<and> \<bar>fl (fl (fl D + fl (fl M / 60)) + fl (fl S / 3600))\<bar> \<le> 1021"
proof -
  have u: "(1000::real) / 2 ^ 53 \<le> 2 / 10000000000000"
    "(17::real) / 2 ^ 53 \<le> 1 / 100000000000000"
    "(1::real) / 2 ^ 53 \<le> 1 / 1000000000000000"
    "(1018::real) / 2 ^ 53 \<le> 2 / 10000000000000"
    "(1020::real) / 2 ^ 53 \<le> 2 / 10000000000000"
    by simp_all
  have d: "\<bar>fl D - D\<bar> \<le> 2 / 10000000000000" using fl_close [OF assms(1)] u(1) by linarith
  have m: "\<bar>fl M - M\<bar> \<le> 2 / 10000000000000" using fl_close [OF assms(2)] u(1) by linarith
  have s: "\<bar>fl S - S\<bar> \<le> 2 / 10000000000000" using fl_close [OF assms(3)] u(1) by linarith
  have m60: "\<bar>fl M / 60 - M / 60\<bar> \<le> 1 / 100000000000000" using m by linarith
  have s3600: "\<bar>fl S / 3600 - S / 3600\<bar> \<le> 1 / 1000000000000000" using s by linarith
  have mb: "\<bar>fl M / 60\<bar> \<le> 17" using m60 assms(2) by linarith
  have a: "\<bar>fl (fl M / 60) - fl M / 60\<bar> \<le> 1 / 100000000000000"
    using fl_close [OF mb] u(2) by linarith
  have sb: "\<bar>fl S / 3600\<bar> \<le> 1" using s3600 assms(3) by linarith
  have b: "\<bar>fl (fl S / 3600) - fl S / 3600\<bar> \<le> 1 / 1000000000000000"
    using fl_close [OF sb] u(3) by linarith
  have cb: "\<bar>fl D + fl (fl M / 60)\<bar> \<le> 1018" using d assms(1) a mb by linarith
  have c: "\<bar>fl (fl D + fl (fl M / 60)) - (fl D + fl (fl M / 60))\<bar> \<le> 2 / 10000000000000"
    using fl_close [OF cb] u(4) by linarith
  have eb: "\<bar>fl (fl D + fl (fl M / 60)) + fl (fl S / 3600)\<bar> \<le> 1020"
    using c cb b sb by linarith
  have e: "\<bar>fl (fl (fl D + fl (fl M / 60)) + fl (fl S / 3600))
            - (fl (fl D + fl (fl M / 60)) + fl (fl S / 3600))\<bar> \<le> 2 / 10000000000000"
    using fl_close [OF eb] u(5) by linarith
  have "\<bar>fl (fl (fl D + fl (fl M / 60)) + fl (fl S / 3600)) - (D + M / 60 + S / 3600)\<bar>
          \<le> 1 / 1000000000000"
    using d m60 s3600 a b c e by linarith
  moreover have "\<bar>fl (fl (fl D + fl (fl M / 60)) + fl (fl S / 3600))\<bar> \<le> 1021"
    using e eb by linarith
  ultimately show ?thesis by blast
qed

lemma round_six_close:
  assumes "\<bar>v - x\<bar> \<le> 1 / 1000000000000" and "\<bar>v\<bar> \<le> 1021"
  shows "\<bar>js_round (fl (v * 1000000)) - x * 1000000\<bar> \<le> 501 / 1000
         \<and> \<bar>fl (js_round (fl (v * 1000000)) / 1000000) - x\<bar> \<le> 501 / 1000000000"
proof -
  have u: "(1021000000::real) / 2 ^ 53 \<le> 2 / 10000000"
    "(1022::real) / 2 ^ 53 \<le> 2 / 10000000000000"
    by simp_all
  have yb: "\<bar>v * 1000000\<bar> \<le> 1021000000" using assms(2) by linarith
  have y: "\<bar>fl (v * 1000000) - v * 1000000\<bar> \<le> 2 / 10000000"
    using fl_close [OF yb] u(1) by linarith
  have vx: "\<bar>v * 1000000 - x * 1000000\<bar> \<le> 1 / 1000000" using assms(1) by linarith
  have r: "\<bar>js_round (fl (v * 1000000)) - fl (v * 1000000)\<bar> \<le> 1 / 2"
    unfolding js_round_def by linarith
  have n: "\<bar>js_round (fl (v * 1000000)) - x * 1000000\<bar> \<le> 500002 / 1000000"
    using vx y r by linarith
  have nb: "\<bar>js_round (fl (v * 1000000)) / 1000000\<bar> \<le> 1022" using y yb r by linarith
  have q: "\<bar>fl (js_round (fl (v * 1000000)) / 1000000) - js_round (fl (v * 1000000)) / 1000000\<bar>
             \<le> 2 / 10000000000000" using fl_close [OF nb] u(2) by linarith
  have n6: "\<bar>js_round (fl (v * 1000000)) / 1000000 - x\<bar> \<le> 500002 / 1000000000000"
    using n by linarith
  have "\<bar>fl (js_round (fl (v * 1000000)) / 1000000) - x\<bar> \<le> 501 / 1000000000"
    using n6 q by linarith
  moreover have "\<bar>js_round (fl (v * 1000000)) - x * 1000000\<bar> \<le> 501 / 1000"
    using n by linarith
  ultimately show ?thesis by blast
qed


lemma convert_double:
  assumes "d2 \<noteq> 0" and "m2 \<noteq> 0" and "s2 \<noteq> 0"
  shows "convertDMSToDecimal (Some ((d1, d2) # (m1, m2) # (s1, s2) # rest)) ref =
           Some (Decimal (fl (js_round (fl
             ((if ref = Some ''S'' \<or> ref = Some ''W'' then - 1 else 1)
              * fl (fl (fl (real_of_int d1 / real_of_int d2)
                        + fl (fl (real_of_int m1 / real_of_int m2) / 60))
                    + fl (fl (real_of_int s1 / real_of_int s2) / 3600))
              * 1000000)) / 1000000)))"
  using assms by (simp add: convertDMSToDecimal_def quotient_def Let_def)

lemma fl_0: "fl 0 = 0" by (simp add: fl_def)
lemma fl_40: "fl 40 = 40" using fl_nearest [of 40 47 5629499534213120] by simp
lemma fl_26: "fl 26 = 26" using fl_nearest [of 26 48 7318349394477056] by simp
lemma fl_46: "fl 46 = 46" using fl_nearest [of 46 47 6473924464345088] by simp

lemma example_sum:
  "fl (fl (fl 40 + fl (fl 26 / 60)) + fl (fl 46 / 3600)) = 5692284091518302 / 2 ^ 47"
proof -
  have a: "fl (26 / 60) = 7806239354108860 / 2 ^ 54"
    using fl_nearest [of "26 / 60" 54 7806239354108860] by simp
  have b: "fl (46 / 3600) = 7365887390543745 / 2 ^ 59"
    using fl_nearest [of "46 / 3600" 59 7365887390543745] by simp
  have c: "fl (40 + 7806239354108860 / 2 ^ 54) = 5690485779167095 / 2 ^ 47"
    using fl_nearest [of "40 + 7806239354108860 / 2 ^ 54" 47 5690485779167095] by simp
  have d: "fl (5690485779167095 / 2 ^ 47 + 7365887390543745 / 2 ^ 59) = 5692284091518302 / 2 ^ 47"
    using fl_nearest [of "5690485779167095 / 2 ^ 47 + 7365887390543745 / 2 ^ 59" 47 5692284091518302]
    by simp
  show ?thesis by (simp only: fl_40 fl_26 fl_46 a b c d)
qed

lemma example_north:
  "fl (js_round (fl (1 * (5692284091518302 / 2 ^ 47) * 1000000)) / 1000000) = 5692284075880804 / 2 ^ 47"
proof -
  have y: "fl (1 * (5692284091518302 / 2 ^ 47) * 1000000) = 5428585139768888 / 2 ^ 27"
    using fl_nearest [of "1 * (5692284091518302 / 2 ^ 47) * 1000000" 27 5428585139768888] by simp
  have n: "js_round (5428585139768888 / 2 ^ 27) = 40446111"
    by (simp add: js_round_def)
  have r: "fl (40446111 / 1000000) = 5692284075880804 / 2 ^ 47"
    using fl_nearest [of "40446111 / 1000000" 47 5692284075880804] by simp
  show ?thesis by (simp only: y n r)
qed

lemma example_south:
  "fl (js_round (fl (- 1 * (5692284091518302 / 2 ^ 47) * 1000000)) / 1000000)
     = - (5692284075880804 / 2 ^ 47)"
proof -
  have y: "fl (- 1 * (5692284091518302 / 2 ^ 47) * 1000000) = - (5428585139768888 / 2 ^ 27)"
    using fl_nearest [of "- 1 * (5692284091518302 / 2 ^ 47) * 1000000" 27 "- 5428585139768888"] by simp
  have n: "js_round (- (5428585139768888 / 2 ^ 27)) = - 40446111"
    by (simp add: js_round_def)
  have r: "fl (- 40446111 / 1000000) = - (5692284075880804 / 2 ^ 47)"
    using fl_nearest [of "- 40446111 / 1000000" 47 "- 5692284075880804"] by simp
  show ?thesis by (simp only: y n r)
qed

lemma example_value: "\<bar>5692284075880804 / 2 ^ 47 - (40.446111::real)\<bar> \<le> 1 / 100000000000000"
  by simp

lemma example_nearest: "fl (40446111 / 1000000) = 5692284075880804 / 2 ^ 47"
  using fl_nearest [of "40446111 / 1000000" 47 5692284075880804] by simp

lemma convert_north:
  "convertDMSToDecimal (Some [(40, 1), (26, 1), (4600, 100)]) (Some ''N'')
     = Some (Decimal (5692284075880804 / 2 ^ 47))"
proof -
  have "convertDMSToDecimal (Some [(40, 1), (26, 1), (4600, 100)]) (Some ''N'') =
          Some (Decimal (fl (js_round (fl
             (1 * fl (fl (fl 40 + fl (fl 26 / 60)) + fl (fl 46 / 3600)) * 1000000)) / 1000000)))"
    by (simp add: convertDMSToDecimal_def quotient_def Let_def)
  then show ?thesis by (simp only: example_sum example_north)
qed

lemma convert_south:
  "convertDMSToDecimal (Some [(40, 1), (26, 1), (4600, 100)]) (Some ''S'')
     = Some (Decimal (- (5692284075880804 / 2 ^ 47)))"
proof -
  have "convertDMSToDecimal (Some [(40, 1), (26, 1), (4600, 100)]) (Some ''S'') =
          Some (Decimal (fl (js_round (fl
             (- 1 * fl (fl (fl 40 + fl (fl 26 / 60)) + fl (fl 46 / 3600)) * 1000000)) / 1000000)))"
    by (simp add: convertDMSToDecimal_def quotient_def Let_def)
  then show ?thesis by (simp only: example_sum example_south)
qed

lemma convert_tie:
  "convertDMSToDecimal (Some [(328094585, 10000000), (0, 1), (0, 1)]) (Some ''N'')
     = Some (Decimal (4617520713219623 / 2 ^ 47))
   \<and> \<bar>4617520713219623 / 2 ^ 47 - (32.809458::real)\<bar> \<le> 1 / 100000000000000"
proof -
  have t: "fl (328094585 / 10000000) = 4617520783588367 / 2 ^ 47"
    using fl_nearest [of "328094585 / 10000000" 47 4617520783588367] by simp
  have z: "fl (0 / 60) = 0" "fl (0 / 3600) = 0" by (simp_all add: fl_0)
  have c: "fl (4617520783588367 / 2 ^ 47 + 0) = 4617520783588367 / 2 ^ 47"
    using fl_nearest [of "4617520783588367 / 2 ^ 47 + 0" 47 4617520783588367] by simp
  have y: "fl (1 * (4617520783588367 / 2 ^ 47) * 1000000) = 8807221953560575 / 2 ^ 28"
    using fl_nearest [of "1 * (4617520783588367 / 2 ^ 47) * 1000000" 28 8807221953560575] by simp
  have n: "js_round (8807221953560575 / 2 ^ 28) = 32809458"
    by (simp add: js_round_def)
  have r: "fl (32809458 / 1000000) = 4617520713219623 / 2 ^ 47"
    using fl_nearest [of "32809458 / 1000000" 47 4617520713219623] by simp
  have "convertDMSToDecimal (Some [(328094585, 10000000), (0, 1), (0, 1)]) (Some ''N'') =
          Some (Decimal (fl (js_round (fl
             (1 * fl (fl (fl (328094585 / 10000000) + fl (fl 0 / 60)) + fl (fl 0 / 3600)) * 1000000))
               / 1000000)))"
    by (simp add: convertDMSToDecimal_def quotient_def Let_def)
  then have "convertDMSToDecimal (Some [(328094585, 10000000), (0, 1), (0, 1)]) (Some ''N'')
     = Some (Decimal (4617520713219623 / 2 ^ 47))"
    by (simp only: t fl_0 z c y n r)
  then show ?thesis by simp
qed


text \<open>
  C7. GPS conversion maps degrees/minutes/seconds rationals to decimal degrees by
  deg + min/60 + sec/3600, negated exactly when the hemisphere reference is "S" or "W",
  and rounds to 6 decimal places. The source computes in doubles: for rationals with
  non-zero denominators and components of magnitude at most 1000, the result is the double
  nearest to n/1000000 for an integer n within 0.501 of one million times the signed exact
  value, and it lies within 0.501 millionths of that value. For degrees 40, minutes 26,
  seconds 46.00 the result is the double nearest to 40.446111 with reference "N" and its
  negation with reference "S". A value whose seventh decimal is 5, such as 32.8094585, may
  round down: the product with one million falls just below the tie, and the result is
  the double nearest to 32.809458.
\<close>

theorem gps_conversion:
  assumes "d2 \<noteq> 0" and "m2 \<noteq> 0" and "s2 \<noteq> 0"
    and "\<bar>real_of_int d1 / real_of_int d2\<bar> \<le> 1000"
    and "\<bar>real_of_int m1 / real_of_int m2\<bar> \<le> 1000"
    and "\<bar>real_of_int s1 / real_of_int s2\<bar> \<le> 1000"
  shows
    "(\<exists>r n. convertDMSToDecimal (Some ((d1, d2) # (m1, m2) # (s1, s2) # rest)) ref = Some (Decimal r)
         \<and> r = fl (real_of_int n / 1000000)
         \<and> \<bar>real_of_int n
             - (if ref = Some ''S'' \<or> ref = Some ''W'' then - 1 else 1)
               * (real_of_int d1 / real_of_int d2
                  + (real_of_int m1 / real_of_int m2) / 60
                  + (real_of_int s1 / real_of_int s2) / 3600) * 1000000\<bar> \<le> 501 / 1000
         \<and> \<bar>r - (if ref = Some ''S'' \<or> ref = Some ''W'' then - 1 else 1)
                 * (real_of_int d1 / real_of_int d2
                    + (real_of_int m1 / real_of_int m2) / 60
                    + (real_of_int s1 / real_of_int s2) / 3600)\<bar> \<le> 501 / 1000000000)
     \<and> convertDMSToDecimal (Some [(40, 1), (26, 1), (4600, 100)]) (Some ''N'')
         = Some (Decimal (5692284075880804 / 2 ^ 47))
     \<and> fl (40446111 / 1000000) = 5692284075880804 / 2 ^ 47
     \<and> \<bar>5692284075880804 / 2 ^ 47 - (40.446111::real)\<bar> \<le> 1 / 100000000000000
     \<and> convertDMSToDecimal (Some [(40, 1), (26, 1), (4600, 100)]) (Some ''S'')
         = Some (Decimal (- (5692284075880804 / 2 ^ 47)))
     \<and> convertDMSToDecimal (Some [(328094585, 10000000), (0, 1), (0, 1)]) (Some ''N'')
         = Some (Decimal (4617520713219623 / 2 ^ 47))
     \<and> \<bar>4617520713219623 / 2 ^ 47 - (32.809458::real)\<bar> \<le> 1 / 100000000000000"
proof -
  define X where "X = real_of_int d1 / real_of_int d2 + (real_of_int m1 / real_of_int m2) / 60
                      + (real_of_int s1 / real_of_int s2) / 3600"
  define v where "v = fl (fl (fl (real_of_int d1 / real_of_int d2)
                        + fl (fl (real_of_int m1 / real_of_int m2) / 60))
                    + fl (fl (real_of_int s1 / real_of_int s2) / 3600))"
  define g :: real where "g = (if ref = Some ''S'' \<or> ref = Some ''W'' then - 1 else 1)"
  have sum: "\<bar>v - X\<bar> \<le> 1 / 1000000000000 \<and> \<bar>v\<bar> \<le> 1021"
    unfolding v_def X_def by (rule double_sum_close [OF assms(4) assms(5) assms(6)])
  have g: "g = 1 \<or> g = - 1" unfolding g_def by simp
  have ga: "\<bar>g\<bar> = 1" using g by auto
  have "\<bar>g * v - g * X\<bar> = \<bar>g\<bar> * \<bar>v - X\<bar>"
    by (simp add: abs_mult [symmetric] right_diff_distrib)
  then have sv: "\<bar>g * v - g * X\<bar> \<le> 1 / 1000000000000" using ga sum by simp
  have svb: "\<bar>g * v\<bar> \<le> 1021" using ga sum by (simp add: abs_mult)
  note six = round_six_close [OF sv svb]
  define n where "n = \<lfloor>fl (g * v * 1000000) + 1 / 2\<rfloor>"
  have jn: "js_round (fl (g * v * 1000000)) = real_of_int n"
    unfolding n_def js_round_def by simp
  have conv: "convertDMSToDecimal (Some ((d1, d2) # (m1, m2) # (s1, s2) # rest)) ref =
                Some (Decimal (fl (real_of_int n / 1000000)))"
    unfolding convert_double [OF assms(1) assms(2) assms(3)] jn [symmetric] g_def v_def ..
  have b1: "\<bar>real_of_int n - g * X * 1000000\<bar> \<le> 501 / 1000"
    using six unfolding jn by simp
  have b2: "\<bar>fl (real_of_int n / 1000000) - g * X\<bar> \<le> 501 / 1000000000"
    using six unfolding jn by simp
  have general: "\<exists>r n. convertDMSToDecimal (Some ((d1, d2) # (m1, m2) # (s1, s2) # rest)) ref = Some (Decimal r)
         \<and> r = fl (real_of_int n / 1000000)
         \<and> \<bar>real_of_int n - g * X * 1000000\<bar> \<le> 501 / 1000
         \<and> \<bar>r - g * X\<bar> \<le> 501 / 1000000000"
    using conv b1 b2 by blast
  show ?thesis
    using general convert_north example_nearest example_value convert_south convert_tie
    unfolding g_def X_def by blast
qed

theorem gps_conversion_witness:
  "(1::int) \<noteq> 0 \<and> (100::int) \<noteq> 0
   \<and> \<bar>real_of_int 40 / real_of_int 1\<bar> \<le> 1000
   \<and> \<bar>real_of_int 26 / real_of_int 1\<bar> \<le> 1000
   \<and> \<bar>real_of_int 4600 / real_of_int 100\<bar> \<le> 1000
   \<and> (\<exists>r. convertDMSToDecimal (Some [(40, 1), (26, 1), (4600, 100)]) (Some ''W'') = Some (Decimal r)
          \<and> \<bar>r - (- 40.446111)\<bar> \<le> 1 / 1000000)"
proof -
  have h1: "(1::int) \<noteq> 0" and h2: "(100::int) \<noteq> 0" by simp_all
  have h3: "\<bar>real_of_int 40 / real_of_int 1\<bar> \<le> 1000"
    and h4: "\<bar>real_of_int 26 / real_of_int 1\<bar> \<le> 1000"
    and h5: "\<bar>real_of_int 4600 / real_of_int 100\<bar> \<le> 1000" by simp_all
  from gps_conversion [OF h1 h1 h2 h3 h4 h5, of "[]" "Some ''W''"]
  obtain r n where
    c: "convertDMSToDecimal (Some [(40, 1), (26, 1), (4600, 100)]) (Some ''W'') = Some (Decimal r)"
    and b: "\<bar>r - (if Some ''W'' = Some ''S'' \<or> Some ''W'' = Some ''W'' then - 1 else 1)
                 * (real_of_int 40 / real_of_int 1
                    + (real_of_int 26 / real_of_int 1) / 60
                    + (real_of_int 4600 / real_of_int 100) / 3600)\<bar> \<le> 501 / 1000000000"
    by blast
  have "\<bar>r - (- (72803 / 1800))\<bar> \<le> 501 / 1000000000" using b by simp
  then have "\<bar>r - (- (40446111 / 1000000))\<bar> \<le> 1 / 1000000" by linarith
  then have "\<bar>r - (- 40.446111)\<bar> \<le> 1 / 1000000" by simp
  then show ?thesis using c h3 h4 h5 by auto
qed


subsection \<open>Date parsing\<close>

text \<open>
  C9. The code departs from the claim on malformed strings whose shape is right. Neither
  parser throws, but parseEXIFDate returns a Date object, not null, for "a:b:c d:e:f" (an
  Invalid Date: every component is NaN), and for the malformed "2024x:01:15 14:30:45" it
  returns the same Date as for "2024:01:15 14:30:45". parseGPSTimestamp, which checks no
  shape at all, returns an Invalid Date for the pair "garbage", "x".
\<close>

theorem malformed_dates_not_absent:
  "parseEXIFDate ''a:b:c d:e:f'' = Some (DateOf None None None None None None)
   \<and> isInvalidDate (DateOf None None None None None None)
   \<and> parseEXIFDate ''2024x:01:15 14:30:45''
       = Some (DateOf (Some 2024) (Some 0) (Some 15) (Some 14) (Some 30) (Some 45))
   \<and> parseEXIFDate ''2024:01:15 14:30:45''
       = Some (DateOf (Some 2024) (Some 0) (Some 15) (Some 14) (Some 30) (Some 45))
   \<and> parseGPSTimestamp ''garbage'' ''x'' = Some (DateOf None None None None None None)"
  by code_simp

subsection \<open>Forensics analyzer: failure of a sub-analysis\<close>

lemma truncated_jpeg_throws: "jpegStructure (img_buffer truncatedJPEG) = Inl RangeError"
  by code_simp

lemma truncated_jpeg_no_png: "pngScan decode truncatedJPEG = Inr []"
  by (simp add: pngScan_def truncatedJPEG_def)

lemma small_image_no_screenshot:
  "detectScreenshot 640 480 None None = \<lparr> shot_isScreenshot = False, shot_probability = 30 \<rparr>"
  by (simp add: detectScreenshot_def Let_def truthy_def)

lemma analyzeForensics_assembled:
  assumes "pngScan decode img = Inr pngResult"
  shows "fr_findings (analyzeForensics decode (Inr img) elaIn freqIn texIn artIn mk sw) =
           elaFindings (analyzeELA elaIn)
           @ frequencyFindings (analyzeFrequencyDomain freqIn)
           @ textureFindings (analyzeTexturePatterns texIn)
           @ compressionFindings (if img_format img = Some ''jpeg''
                                  then Some (analyzeJPEGCompression (img_buffer img)) else None)
           @ artifactFindings (detectAIArtifacts artIn)
           @ screenshotFindings (detectScreenshot (img_width img) (img_height img) mk sw)
           @ exportFindings sw @ pngResult"
    and "fr_status (analyzeForensics decode (Inr img) elaIn freqIn texIn artIn mk sw) =
           forensicStatus (fr_findings (analyzeForensics decode (Inr img) elaIn freqIn texIn artIn mk sw))"
    and "elaAnalysis (analyzeForensics decode (Inr img) elaIn freqIn texIn artIn mk sw) = Some (analyzeELA elaIn)"
    and "frequencyAnalysis (analyzeForensics decode (Inr img) elaIn freqIn texIn artIn mk sw) =
           Some (analyzeFrequencyDomain freqIn)"
    and "textureAnalysis (analyzeForensics decode (Inr img) elaIn freqIn texIn artIn mk sw) =
           Some (analyzeTexturePatterns texIn)"
    and "aiArtifactAnalysis (analyzeForensics decode (Inr img) elaIn freqIn texIn artIn mk sw) =
           Some (detectAIArtifacts artIn)"
    and "compressionAnalysis (analyzeForensics decode (Inr img) elaIn freqIn texIn artIn mk sw) =
           (if img_format img = Some ''jpeg''
            then Some (analyzeJPEGCompression (img_buffer img)) else None)"
  using assms by (simp_all add: analyzeForensics_def Let_def)

lemma neutral_results:
  "\<not> hasManipulation (analyzeELA (Inl e))" "ela_severity (analyzeELA (Inl e)) = 0"
  "elaFindings (analyzeELA (Inl e)) = []"
  "\<not> hasAnomalies (analyzeFrequencyDomain (Inl e))" "freq_severity (analyzeFrequencyDomain (Inl e)) = 0"
  "frequencyFindings (analyzeFrequencyDomain (Inl e)) = []"
  "\<not> isArtificial (analyzeTexturePatterns (Inl e))" "tex_severity (analyzeTexturePatterns (Inl e)) = 0"
  "textureFindings (analyzeTexturePatterns (Inl e)) = []"
  "\<not> hasArtifacts (detectAIArtifacts (Inl e))" "art_severity (detectAIArtifacts (Inl e)) = 0"
  "artifactFindings (detectAIArtifacts (Inl e)) = []"
  by (simp_all add: analyzeELA_def analyzeFrequencyDomain_def analyzeTexturePatterns_def
        detectAIArtifacts_def elaFindings_def frequencyFindings_def textureFindings_def
        artifactFindings_def gradedFinding_def)

lemma neutral_compression:
  assumes "jpegStructure buf = Inl e"
  shows "\<not> hasInconsistency (analyzeJPEGCompression buf)"
    and "comp_severity (analyzeJPEGCompression buf) = 0"
    and "compressionFindings (Some (analyzeJPEGCompression buf)) = []"
  using assms by (simp_all add: analyzeJPEGCompression_def noInconsistency_def compressionFindings_def)

text \<open>
  C8. When the measurement inside a forensic sub-analysis throws, the sub-analysis returns a
  neutral result: its detection flag is false, its severity is 0, and its block of
  analyzeForensics pushes no Finding. This holds for error level analysis, frequency-domain
  analysis, texture analysis and AI-artifact detection on any exception, and for the JPEG
  compression analysis whenever a read inside its \<open>try\<close> block throws. The overall call is
  not aborted: once the image header is read and the PNG scan returns, analyzeForensics
  returns the assembled result for any outcomes of the sub-analyses, every sub-result is
  the one computed from its own input alone, and the finding list is the concatenation of
  the blocks.
\<close>

theorem sub_analysis_failure_is_neutral:
  assumes "pngScan decode img = Inr pngResult"
  shows
    "(\<not> hasManipulation (analyzeELA (Inl e)) \<and> ela_severity (analyzeELA (Inl e)) = 0
        \<and> elaFindings (analyzeELA (Inl e)) = [])
     \<and> (\<not> hasAnomalies (analyzeFrequencyDomain (Inl e)) \<and> freq_severity (analyzeFrequencyDomain (Inl e)) = 0
        \<and> frequencyFindings (analyzeFrequencyDomain (Inl e)) = [])
     \<and> (\<not> isArtificial (analyzeTexturePatterns (Inl e)) \<and> tex_severity (analyzeTexturePatterns (Inl e)) = 0
        \<and> textureFindings (analyzeTexturePatterns (Inl e)) = [])
     \<and> (\<not> hasArtifacts (detectAIArtifacts (Inl e)) \<and> art_severity (detectAIArtifacts (Inl e)) = 0
        \<and> artifactFindings (detectAIArtifacts (Inl e)) = [])
     \<and> (jpegStructure (img_buffer img) = Inl e \<longrightarrow>
          \<not> hasInconsistency (analyzeJPEGCompression (img_buffer img))
          \<and> comp_severity (analyzeJPEGCompression (img_buffer img)) = 0
          \<and> compressionFindings (Some (analyzeJPEGCompression (img_buffer img))) = [])
     \<and> elaAnalysis (analyzeForensics decode (Inr img) elaIn freqIn texIn artIn mk sw) = Some (analyzeELA elaIn)
     \<and> frequencyAnalysis (analyzeForensics decode (Inr img) elaIn freqIn texIn artIn mk sw) =
         Some (analyzeFrequencyDomain freqIn)
     \<and> textureAnalysis (analyzeForensics decode (Inr img) elaIn freqIn texIn artIn mk sw) =
         Some (analyzeTexturePatterns texIn)
     \<and> aiArtifactAnalysis (analyzeForensics decode (Inr img) elaIn freqIn texIn artIn mk sw) =
         Some (detectAIArtifacts artIn)
     \<and> compressionAnalysis (analyzeForensics decode (Inr img) elaIn freqIn texIn artIn mk sw) =
         (if img_format img = Some ''jpeg'' then Some (analyzeJPEGCompression (img_buffer img)) else None)
     \<and> fr_findings (analyzeForensics decode (Inr img) elaIn freqIn texIn artIn mk sw) =
         elaFindings (analyzeELA elaIn)
         @ frequencyFindings (analyzeFrequencyDomain freqIn)
         @ textureFindings (analyzeTexturePatterns texIn)
         @ compressionFindings (if img_format img = Some ''jpeg''
                                then Some (analyzeJPEGCompression (img_buffer img)) else None)
         @ artifactFindings (detectAIArtifacts artIn)
         @ screenshotFindings (detectScreenshot (img_width img) (img_height img) mk sw)
         @ exportFindings sw @ pngResult
     \<and> fr_status (analyzeForensics decode (Inr img) elaIn freqIn texIn artIn mk sw) =
         forensicStatus (fr_findings (analyzeForensics decode (Inr img) elaIn freqIn texIn artIn mk sw))"
  using analyzeForensics_assembled [OF assms] neutral_results neutral_compression
  by (intro conjI impI) simp_all

theorem sub_analysis_failure_is_neutral_witness:
  "pngScan latin1String truncatedJPEG = Inr []
   \<and> jpegStructure (img_buffer truncatedJPEG) = Inl RangeError
   \<and> compressionAnalysis (analyzeForensics latin1String (Inr truncatedJPEG) (Inl LibraryError)
        (Inl LibraryError) (Inl LibraryError) (Inl LibraryError) None None) = Some noInconsistency
   \<and> fr_findings (analyzeForensics latin1String (Inr truncatedJPEG) (Inl LibraryError)
        (Inl LibraryError) (Inl LibraryError) (Inl LibraryError) None None) = []
   \<and> fr_status (analyzeForensics latin1String (Inr truncatedJPEG) (Inl LibraryError)
        (Inl LibraryError) (Inl LibraryError) (Inl LibraryError) None None) = Passed"
proof -
  have w: "img_width truncatedJPEG = 640" and h: "img_height truncatedJPEG = 480"
    and f: "img_format truncatedJPEG = Some ''jpeg''"
    by (simp_all add: truncatedJPEG_def)
  have c: "analyzeJPEGCompression (img_buffer truncatedJPEG) = noInconsistency"
    by (simp add: analyzeJPEGCompression_def truncated_jpeg_throws)
  note t = sub_analysis_failure_is_neutral [where decode = latin1String and img = truncatedJPEG
      and pngResult = "[]" and e = RangeError and elaIn = "Inl LibraryError"
      and freqIn = "Inl LibraryError" and texIn = "Inl LibraryError" and artIn = "Inl LibraryError"
      and mk = None and sw = None, OF truncated_jpeg_no_png]
  show ?thesis
    using t truncated_jpeg_throws
    by (simp add: truncated_jpeg_no_png w h f c small_image_no_screenshot screenshotFindings_def
          exportFindings_def truthy_def forensicStatus_def noInconsistency_def compressionFindings_def
          neutral_results)
qed

subsection \<open>Error level analysis\<close>

text \<open>
  C6. Error level analysis flags manipulation exactly when (variance > 15 and hotspot
  percentage > 5) or (variance < 3 and hotspot percentage < 0.5). Its severity is 75 when
  variance > 25, 60 when 18 < variance <= 25, 45 when 12 < variance <= 18, 70 when
  variance < 2, and 0 otherwise; the severities at variances 26, 20 and 15 are 75 > 60 > 45.
\<close>

theorem ela_flag_and_severity_bands:
  "hasManipulation (elaResult v m x c h) = ((v > 15 \<and> h > 5) \<or> (v < 3 \<and> h < 0.5))
   \<and> ela_severity (elaResult v m x c h) =
       (if v > 25 then 75
        else if 18 < v \<and> v \<le> 25 then 60
        else if 12 < v \<and> v \<le> 18 then 45
        else if v < 2 then 70
        else 0)
   \<and> ela_severity (elaResult 26 m x c h) = 75
   \<and> ela_severity (elaResult 20 m x c h) = 60
   \<and> ela_severity (elaResult 15 m x c h) = 45
   \<and> ela_severity (elaResult 26 m x c h) > ela_severity (elaResult 20 m x c h)
   \<and> ela_severity (elaResult 20 m x c h) > ela_severity (elaResult 15 m x c h)"
  by (simp add: elaResult_def elaSeverity_def)

theorem ela_flag_and_severity_bands_witness:
  "hasManipulation (elaResult 16 4 40 7 6) \<and> ela_severity (elaResult 16 4 40 7 6) = 45
   \<and> hasManipulation (elaResult (5/2) 1 3 0 (1/10)) \<and> ela_severity (elaResult (5/2) 1 3 0 (1/10)) = 0
   \<and> \<not> hasManipulation (elaResult 16 4 40 7 5)"
  using ela_flag_and_severity_bands [of 16 4 40 7 6]
        ela_flag_and_severity_bands [of "5/2" 1 3 0 "1/10"]
        ela_flag_and_severity_bands [of 16 4 40 7 5]
  by simp

end
